theory Spec2Isabelle
  imports Complex_Main
begin

section \<open>The bookings page of the hotel front desk\<close>

text \<open>
  The development embeds the booking logic of \<^verbatim>\<open>src/pages/Bookings.tsx\<close>
  (\<^verbatim>\<open>calculateTotalPrice\<close>, \<^verbatim>\<open>checkRoomAvailability\<close>, \<^verbatim>\<open>validateDates\<close>,
  \<^verbatim>\<open>handleSubmit\<close>, \<^verbatim>\<open>handleCheckOut\<close>) together with the part of the relational
  schema it talks to (tables \<^verbatim>\<open>guests\<close>, \<^verbatim>\<open>rooms\<close>, \<^verbatim>\<open>bookings\<close>, their foreign
  keys, the \<^verbatim>\<open>valid_dates\<close> check, the type of the \<^verbatim>\<open>total_price\<close> column and the
  \<^verbatim>\<open>updated_at\<close> triggers).

  Conventions of the embedding.
  \<^item> An instant is an \<open>int\<close>: milliseconds since 1970-01-01T00:00Z, the value of
    \<^verbatim>\<open>Date.getTime()\<close>. A date string \<^verbatim>\<open>YYYY-MM-DD\<close>, as an
    \<^verbatim>\<open><input type="date">\<close> yields it, is its day number \<open>d\<close> (days since
    1970-01-01); both \<^verbatim>\<open>new Date(s)\<close> and the store's cast of the literal to
    \<^verbatim>\<open>timestamptz\<close> (session time zone UTC) read it as the instant \<open>d * 86400000\<close>.
    The empty string of a date field is \<open>None\<close>.
    The form's date strings are those of the years 0001 to 9999, which both readers
    accept in this form.
  \<^item> A JavaScript number is the rational it denotes; every arithmetic operation of
    the page is the exact operation followed by \<open>js_number\<close>, the rounding to the
    nearest IEEE double (ties to even). The exponent range of doubles is not modelled:
    no value of the page comes near an overflow or a subnormal number.
  \<^item> A price travels as JSON. The page reads \<^verbatim>\<open>price_per_night\<close> as the double nearest
    to the store's decimal; the total goes out as the decimal that \<^verbatim>\<open>JSON.stringify\<close>
    writes for a double (\<open>json_number\<close>), and the store casts it to the column's
    \<^verbatim>\<open>DECIMAL(10,2)\<close> (\<open>numeric_10_2\<close>).
  \<^item> The browser's time zone is a fixed offset from UTC (\<open>e_utc_offset\<close>), the same at
    midnight as at the moment of the call.
  \<^item> Every request to the store answers either with data or with an error; which
    one is an input of the model (the \<open>e_*_error\<close> flags of the environment), and so
    are the clocks and the answer to the confirmation prompt. Row-level policies are
    not modelled: a request the store refuses is an error answer.
  \<^item> Booking ids are generated by the store (\<^verbatim>\<open>gen_random_uuid()\<close>); the model
    numbers the rows instead, each insert taking an unused number.
  \<^item> Toasts are the observable outcome of a handler; each message of the source is
    a constructor of \<open>toast\<close>.
\<close>

subsection \<open>Numbers\<close>

text \<open>Rounding to the nearest integer, a tie going to the even one.\<close>

definition round_even :: "rat \<Rightarrow> int" where
  "round_even y =
     (let f = \<lfloor>y\<rfloor>; d = y - of_int f
      in if d < 1 / 2 then f else if 1 / 2 < d then f + 1 else if even f then f else f + 1)"

text \<open>
  \<open>ilog b x\<close> is the exponent of the largest power of \<open>b\<close> that is at most \<open>x\<close>, for
  \<open>b \<ge> 2\<close> and \<open>x > 0\<close>.
\<close>

function ilog_up :: "nat \<Rightarrow> rat \<Rightarrow> int" where
  "ilog_up b x = (if 2 \<le> b \<and> of_nat b \<le> x then ilog_up b (x / of_nat b) + 1 else 0)"
  by pat_completeness auto
termination
proof (relation "measure (\<lambda>(b, x). nat \<lfloor>x\<rfloor>)")
  show "wf (measure (\<lambda>(b :: nat, x :: rat). nat \<lfloor>x\<rfloor>))" by simp
next
  fix b :: nat and x :: rat
  assume a: "2 \<le> b \<and> of_nat b \<le> x"
  then have "(of_nat 2 :: rat) \<le> of_nat b" by (simp only: of_nat_le_iff)
  then have b: "(2 :: rat) \<le> of_nat b" by simp
  with a have x: "2 \<le> x" by linarith
  from b x have "x / of_nat b \<le> x / 2" by (intro divide_left_mono) simp_all
  also from x have "x / 2 \<le> x - 1" by simp
  finally have "\<lfloor>x / of_nat b\<rfloor> \<le> \<lfloor>x - 1\<rfloor>" by (rule floor_mono)
  moreover have "2 \<le> \<lfloor>x\<rfloor>" using x by (simp add: le_floor_iff)
  ultimately show "((b, x / of_nat b), (b, x)) \<in> measure (\<lambda>(b, x). nat \<lfloor>x\<rfloor>)" by simp
qed

declare ilog_up.simps [simp del]

function ilog_down :: "nat \<Rightarrow> rat \<Rightarrow> int" where
  "ilog_down b x = (if 2 \<le> b \<and> 0 < x \<and> x < 1 then ilog_down b (x * of_nat b) - 1 else 0)"
  by pat_completeness auto
termination
proof (relation "measure (\<lambda>(b, x). nat \<lceil>1 / x\<rceil>)")
  show "wf (measure (\<lambda>(b :: nat, x :: rat). nat \<lceil>1 / x\<rceil>))" by simp
next
  fix b :: nat and x :: rat
  assume a: "2 \<le> b \<and> 0 < x \<and> x < 1"
  then have "(of_nat 2 :: rat) \<le> of_nat b" by (simp only: of_nat_le_iff)
  then have b: "(2 :: rat) \<le> of_nat b" by simp
  from a have y: "1 < 1 / x" by simp
  have "1 / (x * of_nat b) = (1 / x) / of_nat b" by simp
  also from a b have "\<dots> \<le> (1 / x) / 2" by (intro divide_left_mono) simp_all
  finally have le: "1 / (x * of_nat b) \<le> (1 / x) / 2" .
  have "\<lceil>(1 / x) / 2\<rceil> < \<lceil>1 / x\<rceil>"
  proof (cases "1 / x \<le> 2")
    case True
    then have "\<lceil>(1 / x) / 2\<rceil> \<le> 1" by (simp add: ceiling_le_iff)
    moreover from y have "1 < \<lceil>1 / x\<rceil>" by (simp add: less_ceiling_iff)
    ultimately show ?thesis by linarith
  next
    case False
    then have "(1 / x) / 2 \<le> 1 / x - 1" by simp
    then have "\<lceil>(1 / x) / 2\<rceil> \<le> \<lceil>1 / x - 1\<rceil>" by (rule ceiling_mono)
    then show ?thesis by simp
  qed
  moreover from le have "\<lceil>1 / (x * of_nat b)\<rceil> \<le> \<lceil>(1 / x) / 2\<rceil>" by (rule ceiling_mono)
  moreover from a have "0 < \<lceil>1 / x\<rceil>" by (simp add: less_ceiling_iff)
  ultimately show "((b, x * of_nat b), (b, x)) \<in> measure (\<lambda>(b, x). nat \<lceil>1 / x\<rceil>)" by simp
qed

declare ilog_down.simps [simp del]

definition ilog :: "nat \<Rightarrow> rat \<Rightarrow> int" where
  "ilog b x = (if 1 \<le> x then ilog_up b x else ilog_down b x)"

text \<open>
  The IEEE double nearest to \<open>x\<close>: with \<open>2 ^ e \<le> |x| < 2 ^ (e + 1)\<close>, the multiple of
  \<open>2 ^ (e - 52)\<close> nearest to \<open>x\<close>, a tie going to the even multiple. It is the result of
  one arithmetic operation of JavaScript whose exact result is \<open>x\<close>, and the value of
  \<^verbatim>\<open>JSON.parse\<close> on a decimal \<open>x\<close>.
\<close>

definition js_number :: "rat \<Rightarrow> rat" where
  "js_number x = (let ulp = 2 powi (ilog 2 \<bar>x\<bar> - 52) in of_int (round_even (x / ulp)) * ulp)"

text \<open>
  \<^verbatim>\<open>JSON.stringify\<close> writes a double \<open>x\<close> as the decimal with the fewest significant
  digits that reads back as \<open>x\<close>; among several, the one closest to \<open>x\<close>.
  \<open>json_digits k x\<close> is that decimal with \<open>k\<close> significant digits, for \<open>x > 0\<close>, if
  there is one: it is the multiple of the \<open>k\<close>-th digit's unit just below \<open>x\<close> or the
  one just above. Seventeen digits always suffice.
\<close>

definition json_digits :: "nat \<Rightarrow> rat \<Rightarrow> rat option" where
  "json_digits k x =
     (let u = 10 powi (ilog 10 x - int k + 1);
          lo = of_int \<lfloor>x / u\<rfloor> * u;
          hi = of_int \<lceil>x / u\<rceil> * u
      in if js_number lo = x \<and> js_number hi = x
         then Some (if x - lo < hi - x then lo
                    else if hi - x < x - lo then hi
                    else if even \<lfloor>x / u\<rfloor> then lo else hi)
         else if js_number lo = x then Some lo
         else if js_number hi = x then Some hi
         else None)"

fun json_shortest :: "nat \<Rightarrow> nat \<Rightarrow> rat \<Rightarrow> rat" where
  "json_shortest 0 k x = x"
| "json_shortest (Suc n) k x =
     (case json_digits k x of
        Some d \<Rightarrow> d
      | None \<Rightarrow> json_shortest n (Suc k) x)"

definition json_number :: "rat \<Rightarrow> rat" where
  "json_number x =
     (if 0 < x then json_shortest 17 1 x
      else if x < 0 then - json_shortest 17 1 (- x)
      else 0)"

text \<open>
  The store's cast of a decimal to \<^verbatim>\<open>DECIMAL(10,2)\<close>: rounded to two decimals, a tie
  going away from zero; an error (\<open>None\<close>) when the rounded value does not fit eight
  digits before the decimal point.
\<close>

definition round_half_away :: "rat \<Rightarrow> int" where
  "round_half_away y = (if 0 \<le> y then \<lfloor>y + 1 / 2\<rfloor> else - \<lfloor>- y + 1 / 2\<rfloor>)"

definition numeric_10_2 :: "rat \<Rightarrow> rat option" where
  "numeric_10_2 x =
     (let cents = round_half_away (x * 100)
      in if 10 ^ 10 \<le> \<bar>cents\<bar> then None else Some (of_int cents / 100))"

subsection \<open>Entity store\<close>

datatype booking_status = active | checked_out | cancelled

datatype room_status = available | occupied | maintenance | cleaning

record guest =
  g_id :: string
  g_full_name :: string
  g_document_number :: string

record room =
  r_id :: string
  r_room_number :: string
  r_room_type :: string
  r_description :: "string option"
  r_capacity :: int
  r_price_per_night :: rat
  r_status :: room_status
  r_floor :: "int option"
  r_amenities :: "string list option"
  r_created_at :: int
  r_updated_at :: int

record booking =
  b_id :: nat
  b_guest_id :: string
  b_room_id :: string
  b_check_in_date :: int
  b_check_out_date :: int
  b_actual_check_out :: "int option"
  b_total_price :: rat
  b_status :: booking_status
  b_notes :: "string option"
  b_created_at :: int
  b_updated_at :: int

record store =
  db_guests :: "guest list"
  db_rooms :: "room list"
  db_bookings :: "booking list"

record env =
  e_now :: int
  e_utc_offset :: int
  e_db_now :: int
  e_confirm :: bool
  e_select_error :: bool
  e_insert_error :: bool
  e_booking_update_error :: bool
  e_room_update_error :: bool

text \<open>
  \<open>e_now\<close> is the browser's clock, the instant of \<^verbatim>\<open>new Date()\<close>; \<open>e_utc_offset\<close> the
  browser's time zone, local time minus UTC in milliseconds (\<open>-10800000\<close> in Brasilia);
  \<open>e_db_now\<close> the store's \<^verbatim>\<open>NOW()\<close>, \<open>e_confirm\<close> the answer to \<^verbatim>\<open>confirm(...)\<close>.
\<close>

definition day_ms :: int where
  "day_ms = 1000 * 60 * 60 * 24"

definition date_ms :: "int \<Rightarrow> int" where
  "date_ms d = d * day_ms"

text \<open>
  The day number of the current date on the browser's calendar, and the instant of
  \<^verbatim>\<open>new Date()\<close> after \<^verbatim>\<open>setHours(0, 0, 0, 0)\<close>: local midnight of that date.
\<close>

definition local_date :: "env \<Rightarrow> int" where
  "local_date e = (e_now e + e_utc_offset e) div day_ms"

definition e_today :: "env \<Rightarrow> int" where
  "e_today e = date_ms (local_date e) - e_utc_offset e"

text \<open>The row a client sends with \<^verbatim>\<open>insert\<close>; columns it leaves out take their defaults.\<close>

record booking_insert =
  i_guest_id :: string
  i_room_id :: string
  i_check_in_date :: "int option"
  i_check_out_date :: "int option"
  i_notes :: "string option"
  i_total_price :: rat
  i_status :: booking_status

definition new_booking_id :: "store \<Rightarrow> nat" where
  "new_booking_id db = Suc (fold max (map b_id (db_bookings db)) 0)"

text \<open>
  \<^verbatim>\<open>supabase.from("bookings").insert([bookingData])\<close>. The store refuses the row when a
  timestamp literal is empty, when \<^verbatim>\<open>guest_id\<close> or \<^verbatim>\<open>room_id\<close> references no row
  (foreign keys), when \<^verbatim>\<open>total_price\<close>, as the request carries it, does not fit the
  column's \<^verbatim>\<open>DECIMAL(10,2)\<close>, or when \<^verbatim>\<open>CHECK (check_out_date > check_in_date)\<close>
  fails. The row holds the total as the column's cast rounds it. \<open>None\<close> is the error
  answer.
\<close>

definition insert_booking :: "env \<Rightarrow> store \<Rightarrow> booking_insert \<Rightarrow> store option" where
  "insert_booking e db bookingData =
     (if e_insert_error e then None
      else case i_check_in_date bookingData of
        None \<Rightarrow> None
      | Some ci \<Rightarrow>
         (case i_check_out_date bookingData of
            None \<Rightarrow> None
          | Some co \<Rightarrow>
             (case numeric_10_2 (json_number (i_total_price bookingData)) of
                None \<Rightarrow> None
              | Some totalPrice \<Rightarrow>
                 if i_guest_id bookingData \<notin> set (map g_id (db_guests db)) then None
                 else if i_room_id bookingData \<notin> set (map r_id (db_rooms db)) then None
                 else if \<not> co > ci then None
                 else Some (db\<lparr>db_bookings := db_bookings db @
                        [\<lparr>b_id = new_booking_id db,
                          b_guest_id = i_guest_id bookingData,
                          b_room_id = i_room_id bookingData,
                          b_check_in_date = ci,
                          b_check_out_date = co,
                          b_actual_check_out = None,
                          b_total_price = totalPrice,
                          b_status = i_status bookingData,
                          b_notes = i_notes bookingData,
                          b_created_at = e_db_now e,
                          b_updated_at = e_db_now e\<rparr>]\<rparr>))))"

text \<open>
  \<^verbatim>\<open>supabase.from("rooms").update({ status }).eq("id", roomId)\<close>; the trigger
  \<^verbatim>\<open>update_rooms_updated_at\<close> stamps each updated row. Both handlers ignore the
  answer of this request, so the model returns the store only: unchanged on an error.
\<close>

definition update_room_status :: "env \<Rightarrow> store \<Rightarrow> string \<Rightarrow> room_status \<Rightarrow> store" where
  "update_room_status e db roomId st =
     (if e_room_update_error e then db
      else db\<lparr>db_rooms :=
             map (\<lambda>r. if r_id r = roomId
                       then r\<lparr>r_status := st, r_updated_at := e_db_now e\<rparr>
                       else r)
                 (db_rooms db)\<rparr>)"

text \<open>
  \<^verbatim>\<open>supabase.from("bookings").update({ status: "checked_out", actual_check_out }).eq("id", id)\<close>
  with the trigger \<^verbatim>\<open>update_bookings_updated_at\<close>. An update that matches no row is
  not an error.
\<close>

definition update_booking_checked_out :: "env \<Rightarrow> store \<Rightarrow> nat \<Rightarrow> store option" where
  "update_booking_checked_out e db bookingId =
     (if e_booking_update_error e then None
      else Some (db\<lparr>db_bookings :=
             map (\<lambda>b. if b_id b = bookingId
                       then b\<lparr>b_status := checked_out,
                              b_actual_check_out := Some (e_now e),
                              b_updated_at := e_db_now e\<rparr>
                       else b)
                 (db_bookings db)\<rparr>))"

text \<open>
  The availability query:
  \<^verbatim>\<open>.select("id").eq("room_id", roomId).eq("status", "active")
    .or(`and(check_in_date.lte.${checkOut},check_out_date.gte.${checkIn})`)\<close>.
\<close>

definition select_overlapping :: "env \<Rightarrow> store \<Rightarrow> string \<Rightarrow> int \<Rightarrow> int \<Rightarrow> nat list option" where
  "select_overlapping e db roomId checkIn checkOut =
     (if e_select_error e then None
      else Some (map b_id
             (filter (\<lambda>b. b_room_id b = roomId \<and> b_status b = active
                          \<and> b_check_in_date b \<le> checkOut \<and> b_check_out_date b \<ge> checkIn)
                (db_bookings db))))"

subsection \<open>The form and its schema\<close>

record form =
  f_guest_id :: string
  f_room_id :: string
  f_check_in_date :: "int option"
  f_check_in_time :: string
  f_check_out_date :: "int option"
  f_check_out_time :: string
  f_notes :: string

text \<open>What \<^verbatim>\<open>bookingSchema.parse\<close> returns: the same fields, the dates known to be there.\<close>

record validated =
  v_guest_id :: string
  v_room_id :: string
  v_check_in_date :: int
  v_check_in_time :: string
  v_check_out_date :: int
  v_check_out_time :: string
  v_notes :: string

datatype issue =
    GuestInvalid | RoomInvalid | CheckInDateRequired | CheckInTimeInvalid
  | CheckOutDateRequired | CheckOutTimeInvalid | NotesTooLong

datatype toast =
    NoToast
  | ZodError issue
  | CheckInPast
  | CheckOutNotAfter
  | RoomReserved
  | InsertError
  | Created
  | CheckOutError
  | CheckedOut

text \<open>
  The toasts of the two handlers (messages without their accents):
  \<^item> \<open>ZodError i\<close>: the message of the first issue of the schema, in the order of its
    fields;
  \<^item> \<open>CheckInPast\<close>: \<^verbatim>\<open>A data de check-in nao pode ser no passado\<close>;
  \<^item> \<open>CheckOutNotAfter\<close>: \<^verbatim>\<open>A data de check-out deve ser posterior ao check-in\<close>;
  \<^item> \<open>RoomReserved\<close>: \<^verbatim>\<open>Este quarto ja esta reservado para o periodo selecionado\<close>,
    the conflict of the specification;
  \<^item> \<open>InsertError\<close>: \<^verbatim>\<open>Erro ao criar hospedagem\<close>;
  \<^item> \<open>Created\<close>: \<^verbatim>\<open>Hospedagem criada com sucesso!\<close>;
  \<^item> \<open>CheckOutError\<close>: \<^verbatim>\<open>Erro ao realizar check-out\<close>;
  \<^item> \<open>CheckedOut\<close>: \<^verbatim>\<open>Check-out realizado com sucesso!\<close>;
  \<^item> \<open>NoToast\<close>: the handler returned without a message (the prompt was declined).

  The last \<^verbatim>\<open>catch\<close> branch of \<^verbatim>\<open>handleSubmit\<close> (an exception other than the schema's)
  has no counterpart: no step of the model throws.
\<close>

definition hex_digit :: "char \<Rightarrow> bool" where
  "hex_digit c = (c \<in> set ''0123456789abcdefABCDEF'')"

text \<open>
  \<^verbatim>\<open>z.string().uuid()\<close>: groups of 8, 4, 4, 4 and 12 hexadecimal digits, separated by
  hyphens. (Some releases of the library also fix the version and variant digits; the
  ids of the concrete runs below pass either form.)
\<close>

fun hex_groups :: "nat list \<Rightarrow> string \<Rightarrow> bool" where
  "hex_groups [] s = False"
| "hex_groups [n] s = (length s = n \<and> list_all hex_digit s)"
| "hex_groups (n # ns) s =
     (length (take n s) = n \<and> list_all hex_digit (take n s) \<and>
      (case drop n s of [] \<Rightarrow> False | c # rest \<Rightarrow> c = CHR ''-'' \<and> hex_groups ns rest))"

definition is_uuid :: "string \<Rightarrow> bool" where
  "is_uuid s = hex_groups [8, 4, 4, 4, 12] s"

text \<open>The regular expression \<^verbatim>\<open>^([0-1][0-9]|2[0-3]):[0-5][0-9]$\<close>.\<close>

definition valid_time :: "string \<Rightarrow> bool" where
  "valid_time s =
     (case s of
        [h1, h2, c, m1, m2] \<Rightarrow>
          ((h1 \<in> set ''01'' \<and> h2 \<in> set ''0123456789'') \<or> (h1 = CHR ''2'' \<and> h2 \<in> set ''0123''))
          \<and> c = CHR '':'' \<and> m1 \<in> set ''012345'' \<and> m2 \<in> set ''0123456789''
      | _ \<Rightarrow> False)"

definition bookingSchema_parse :: "form \<Rightarrow> issue + validated" where
  "bookingSchema_parse formData =
     (if \<not> is_uuid (f_guest_id formData) then Inl GuestInvalid
      else if \<not> is_uuid (f_room_id formData) then Inl RoomInvalid
      else case f_check_in_date formData of
        None \<Rightarrow> Inl CheckInDateRequired
      | Some ci \<Rightarrow>
         if \<not> valid_time (f_check_in_time formData) then Inl CheckInTimeInvalid
         else (case f_check_out_date formData of
           None \<Rightarrow> Inl CheckOutDateRequired
         | Some co \<Rightarrow>
            if \<not> valid_time (f_check_out_time formData) then Inl CheckOutTimeInvalid
            else if \<not> length (f_notes formData) \<le> 1000 then Inl NotesTooLong
            else Inr \<lparr>v_guest_id = f_guest_id formData,
                      v_room_id = f_room_id formData,
                      v_check_in_date = ci,
                      v_check_in_time = f_check_in_time formData,
                      v_check_out_date = co,
                      v_check_out_time = f_check_out_time formData,
                      v_notes = f_notes formData\<rparr>))"

text \<open>
  The store's reading of the literal \<^verbatim>\<open>`${date}T${time}:00`\<close>: the day plus the time
  of day.
\<close>

definition digit_val :: "char \<Rightarrow> int" where
  "digit_val c = int (of_char c) - 48"

definition time_ms :: "string \<Rightarrow> int" where
  "time_ms s =
     (case s of
        [h1, h2, c, m1, m2] \<Rightarrow>
          ((digit_val h1 * 10 + digit_val h2) * 60 + (digit_val m1 * 10 + digit_val m2)) * 60000
      | _ \<Rightarrow> 0)"

definition datetime_ms :: "int \<Rightarrow> string \<Rightarrow> int" where
  "datetime_ms d t = date_ms d + time_ms t"

subsection \<open>The page\<close>

text \<open>
  \<open>rooms\<close> below is the page's state variable of that name: the room rows as
  \<^verbatim>\<open>loadData\<close> last fetched them. After a success the handlers reset the form and
  call \<^verbatim>\<open>loadData\<close> again; the model takes the room list and the form as arguments and
  returns the toast and the store.
\<close>

text \<open>
  \<^verbatim>\<open>calculateTotalPrice\<close>. The two arguments are the values of \<^verbatim>\<open>getTime()\<close> of the two
  date strings, \<open>None\<close> for the empty string. The difference, the quotient and the
  product are operations on doubles; \<^verbatim>\<open>room.price_per_night\<close> is the double that the
  page holds for the store's decimal.
\<close>

definition calculateTotalPrice :: "room list \<Rightarrow> string \<Rightarrow> int option \<Rightarrow> int option \<Rightarrow> rat" where
  "calculateTotalPrice rooms roomId checkIn checkOut =
     (case find (\<lambda>r. r_id r = roomId) rooms of
        None \<Rightarrow> 0
      | Some room \<Rightarrow>
         (case checkIn of
            None \<Rightarrow> 0
          | Some ci \<Rightarrow>
             (case checkOut of
                None \<Rightarrow> 0
              | Some co \<Rightarrow>
                 let nights = \<lceil>js_number (js_number (of_int co - of_int ci)
                                 / of_int (1000 * 60 * 60 * 24))\<rceil>
                 in js_number (of_int nights * js_number (r_price_per_night room)))))"

definition checkRoomAvailability :: "env \<Rightarrow> store \<Rightarrow> string \<Rightarrow> int \<Rightarrow> int \<Rightarrow> bool" where
  "checkRoomAvailability e db roomId checkIn checkOut =
     (case select_overlapping e db roomId checkIn checkOut of
        None \<Rightarrow> False
      | Some data \<Rightarrow> length data = 0)"

text \<open>
  \<^verbatim>\<open>validateDates\<close> returns \<^verbatim>\<open>false\<close> after showing a toast, or \<^verbatim>\<open>true\<close>; the model
  returns the toast (\<open>Some\<close>) for \<^verbatim>\<open>false\<close> and \<open>None\<close> for \<^verbatim>\<open>true\<close>.
\<close>

definition validateDates :: "int \<Rightarrow> int \<Rightarrow> int \<Rightarrow> toast option" where
  "validateDates today checkInDate checkOutDate =
     (if checkInDate < today then Some CheckInPast
      else if checkOutDate \<le> checkInDate then Some CheckOutNotAfter
      else None)"

definition handleSubmit :: "env \<Rightarrow> room list \<Rightarrow> form \<Rightarrow> store \<Rightarrow> toast \<times> store" where
  "handleSubmit e rooms formData db =
     (case bookingSchema_parse formData of
        Inl firstError \<Rightarrow> (ZodError firstError, db)
      | Inr validatedData \<Rightarrow>
         (case validateDates (e_today e) (date_ms (v_check_in_date validatedData))
                 (date_ms (v_check_out_date validatedData)) of
            Some t \<Rightarrow> (t, db)
          | None \<Rightarrow>
             if \<not> checkRoomAvailability e db (v_room_id validatedData)
                    (date_ms (v_check_in_date validatedData))
                    (date_ms (v_check_out_date validatedData))
             then (RoomReserved, db)
             else
               let totalPrice = calculateTotalPrice rooms (v_room_id validatedData)
                                  (Some (date_ms (v_check_in_date validatedData)))
                                  (Some (date_ms (v_check_out_date validatedData)));
                   checkInDateTime = datetime_ms (v_check_in_date validatedData)
                                       (v_check_in_time validatedData);
                   checkOutDateTime = datetime_ms (v_check_out_date validatedData)
                                        (v_check_out_time validatedData);
                   bookingData = \<lparr>i_guest_id = v_guest_id validatedData,
                                  i_room_id = v_room_id validatedData,
                                  i_check_in_date = Some checkInDateTime,
                                  i_check_out_date = Some checkOutDateTime,
                                  i_notes = (if v_notes validatedData = [] then None
                                             else Some (v_notes validatedData)),
                                  i_total_price = totalPrice,
                                  i_status = active\<rparr>
               in (case insert_booking e db bookingData of
                    None \<Rightarrow> (InsertError, db)
                  | Some db' \<Rightarrow>
                      (Created, update_room_status e db' (v_room_id validatedData) occupied))))"

definition handleCheckOut :: "env \<Rightarrow> booking \<Rightarrow> store \<Rightarrow> toast \<times> store" where
  "handleCheckOut e booking db =
     (if \<not> e_confirm e then (NoToast, db)
      else case update_booking_checked_out e db (b_id booking) of
        None \<Rightarrow> (CheckOutError, db)
      | Some db' \<Rightarrow> (CheckedOut, update_room_status e db' (b_room_id booking) cleaning))"

text \<open>The room selector lists \<^verbatim>\<open>availableRooms\<close>; the list shows the check-out button
  on rows with \<^verbatim>\<open>booking.status === "active"\<close>.\<close>

definition availableRooms :: "room list \<Rightarrow> room list" where
  "availableRooms rooms = filter (\<lambda>r. r_status r = available) rooms"

definition checkOutButton :: "booking \<Rightarrow> bool" where
  "checkOutButton booking = (b_status booking = active)"

subsection \<open>The earlier revision of the page\<close>

text \<open>
  The first revision of the bookings page has no time fields, no schema, no date
  validation and no availability check: its \<^verbatim>\<open>handleSubmit\<close> computes the price and
  inserts \<^verbatim>\<open>{ ...formData, total_price, status: "active" }\<close>. Its
  \<^verbatim>\<open>calculateTotalPrice\<close> and \<^verbatim>\<open>handleCheckOut\<close> are those of the current page.
\<close>

record form_early =
  f0_guest_id :: string
  f0_room_id :: string
  f0_check_in_date :: "int option"
  f0_check_out_date :: "int option"
  f0_notes :: string

definition handleSubmit_early :: "env \<Rightarrow> room list \<Rightarrow> form_early \<Rightarrow> store \<Rightarrow> toast \<times> store" where
  "handleSubmit_early e rooms formData db =
     (let totalPrice = calculateTotalPrice rooms (f0_room_id formData)
                         (map_option date_ms (f0_check_in_date formData))
                         (map_option date_ms (f0_check_out_date formData));
          bookingData = \<lparr>i_guest_id = f0_guest_id formData,
                         i_room_id = f0_room_id formData,
                         i_check_in_date = map_option date_ms (f0_check_in_date formData),
                         i_check_out_date = map_option date_ms (f0_check_out_date formData),
                         i_notes = Some (f0_notes formData),
                         i_total_price = totalPrice,
                         i_status = active\<rparr>
      in (case insert_booking e db bookingData of
            None \<Rightarrow> (InsertError, db)
          | Some db' \<Rightarrow> (Created, update_room_status e db' (f0_room_id formData) occupied)))"

subsection \<open>Notions of the specification\<close>

text \<open>
  The number of nights in the specification's words: the whole days between the two
  instants, and one more night when a partial day remains.
\<close>

definition nights_spec :: "int \<Rightarrow> int \<Rightarrow> int" where
  "nights_spec checkIn checkOut =
     (checkOut - checkIn) div day_ms + (if (checkOut - checkIn) mod day_ms = 0 then 0 else 1)"

text \<open>The overlap test of the availability checker, on two stored bookings.\<close>

definition overlap :: "booking \<Rightarrow> booking \<Rightarrow> bool" where
  "overlap existing other =
     (b_check_in_date existing \<le> b_check_out_date other
      \<and> b_check_out_date existing \<ge> b_check_in_date other)"

text \<open>A booking that blocks the interval from \<open>checkIn\<close> to \<open>checkOut\<close> on a room.\<close>

definition blocks :: "booking \<Rightarrow> string \<Rightarrow> int \<Rightarrow> int \<Rightarrow> bool" where
  "blocks existing roomId checkIn checkOut =
     (b_room_id existing = roomId \<and> b_status existing = active
      \<and> b_check_in_date existing \<le> checkOut \<and> b_check_out_date existing \<ge> checkIn)"

text \<open>
  The row that \<^verbatim>\<open>handleSubmit\<close> asks the store to persist for validated data \<open>v\<close>,
  with the columns the store fills in. It names that row in the statements below; the
  handler above does not use it.
\<close>

definition created_row :: "env \<Rightarrow> room list \<Rightarrow> store \<Rightarrow> validated \<Rightarrow> booking" where
  "created_row e rooms db v =
     \<lparr>b_id = new_booking_id db,
      b_guest_id = v_guest_id v,
      b_room_id = v_room_id v,
      b_check_in_date = datetime_ms (v_check_in_date v) (v_check_in_time v),
      b_check_out_date = datetime_ms (v_check_out_date v) (v_check_out_time v),
      b_actual_check_out = None,
      b_total_price = the (numeric_10_2 (json_number
                        (calculateTotalPrice rooms (v_room_id v)
                           (Some (date_ms (v_check_in_date v)))
                           (Some (date_ms (v_check_out_date v)))))),
      b_status = active,
      b_notes = (if v_notes v = [] then None else Some (v_notes v)),
      b_created_at = e_db_now e,
      b_updated_at = e_db_now e\<rparr>"

subsection \<open>A small hotel, for concrete runs\<close>

text \<open>
  One guest, room 101 at 200.00 a night, no bookings; it is 10:00 on 2024-06-01
  (day 19875) in a zone on UTC.
\<close>

definition guest_G1 :: guest where
  "guest_G1 = \<lparr>g_id = ''11111111-1111-4111-8111-111111111111'',
               g_full_name = ''G1'', g_document_number = ''12345''\<rparr>"

definition room_101 :: room where
  "room_101 = \<lparr>r_id = ''22222222-2222-4222-8222-222222222222'', r_room_number = ''101'',
               r_room_type = ''double'', r_description = None, r_capacity = 2,
               r_price_per_night = 200, r_status = available, r_floor = Some 1,
               r_amenities = None, r_created_at = 0, r_updated_at = 0\<rparr>"

definition store_0 :: store where
  "store_0 = \<lparr>db_guests = [guest_G1], db_rooms = [room_101], db_bookings = []\<rparr>"

definition env_0 :: env where
  "env_0 = \<lparr>e_now = date_ms 19875 + 36000000, e_utc_offset = 0,
            e_db_now = date_ms 19875 + 36000000, e_confirm = True,
            e_select_error = False, e_insert_error = False,
            e_booking_update_error = False, e_room_update_error = False\<rparr>"

definition form_of :: "int \<Rightarrow> string \<Rightarrow> int \<Rightarrow> string \<Rightarrow> string \<Rightarrow> form" where
  "form_of ci tin co tout notes =
     \<lparr>f_guest_id = g_id guest_G1, f_room_id = r_id room_101,
      f_check_in_date = Some ci, f_check_in_time = tin,
      f_check_out_date = Some co, f_check_out_time = tout, f_notes = notes\<rparr>"

text \<open>The booking that \<open>form_of ci tin co tout notes\<close> asks for, as row \<open>n\<close>.\<close>

definition booking_of :: "nat \<Rightarrow> int \<Rightarrow> string \<Rightarrow> int \<Rightarrow> string \<Rightarrow> rat \<Rightarrow> booking" where
  "booking_of n ci tin co tout price =
     \<lparr>b_id = n, b_guest_id = g_id guest_G1, b_room_id = r_id room_101,
      b_check_in_date = datetime_ms ci tin, b_check_out_date = datetime_ms co tout,
      b_actual_check_out = None, b_total_price = price, b_status = active,
      b_notes = None, b_created_at = e_db_now env_0, b_updated_at = e_db_now env_0\<rparr>"

text \<open>What the schema returns for \<open>form_of ci tin co tout notes\<close>.\<close>

definition validated_of :: "int \<Rightarrow> string \<Rightarrow> int \<Rightarrow> string \<Rightarrow> string \<Rightarrow> validated" where
  "validated_of ci tin co tout notes =
     \<lparr>v_guest_id = g_id guest_G1, v_room_id = r_id room_101,
      v_check_in_date = ci, v_check_in_time = tin,
      v_check_out_date = co, v_check_out_time = tout, v_notes = notes\<rparr>"

text \<open>The store after the stay of 2024-06-05 14:00 to 2024-06-07 12:00 has been booked.\<close>

definition booking_1 :: booking where
  "booking_1 = booking_of 1 19879 ''14:00'' 19881 ''12:00'' 400"

definition store_1 :: store where
  "store_1 = \<lparr>db_guests = [guest_G1],
              db_rooms = [room_101\<lparr>r_status := occupied, r_updated_at := e_db_now env_0\<rparr>],
              db_bookings = [booking_1]\<rparr>"

text \<open>
  A second stay in room 101, 2024-06-03 14:00 to 2024-06-05 23:00, and the store that
  holds both stays.
\<close>

definition booking_2 :: booking where
  "booking_2 = booking_of 2 19877 ''14:00'' 19879 ''23:00'' 400"

definition store_2 :: store where
  "store_2 = \<lparr>db_guests = [guest_G1],
              db_rooms = [room_101\<lparr>r_status := occupied, r_updated_at := e_db_now env_0\<rparr>],
              db_bookings = [booking_1, booking_2]\<rparr>"

text \<open>A form of the earlier revision of the page, for room 101.\<close>

definition form_early_of :: "int \<Rightarrow> int \<Rightarrow> form_early" where
  "form_early_of ci co =
     \<lparr>f0_guest_id = g_id guest_G1, f0_room_id = r_id room_101,
      f0_check_in_date = Some ci, f0_check_out_date = Some co, f0_notes = []\<rparr>"

text \<open>The same environment one hour later on the browser's clock.\<close>

definition env_1 :: env where
  "env_1 = env_0\<lparr>e_now := e_now env_0 + 3600000\<rparr>"

text \<open>The environment in which the availability query fails.\<close>

definition env_select_error :: env where
  "env_select_error = env_0\<lparr>e_select_error := True\<rparr>"

text \<open>The same moment with the browser in Brasilia, three hours behind UTC: 07:00 on
  2024-06-01.\<close>

definition env_brasilia :: env where
  "env_brasilia = env_0\<lparr>e_utc_offset := - 10800000\<rparr>"

text \<open>Room 102 at 0.10 a night, and room 103 at 89.90.\<close>

definition room_102 :: room where
  "room_102 = room_101\<lparr>r_id := ''33333333-3333-4333-8333-333333333333'',
                        r_room_number := ''102'', r_price_per_night := 1 / 10\<rparr>"

definition room_103 :: room where
  "room_103 = room_101\<lparr>r_id := ''44444444-4444-4444-8444-444444444444'',
                        r_room_number := ''103'', r_price_per_night := 899 / 10\<rparr>"

section \<open>Properties\<close>

subsection \<open>Doubles and decimals\<close>

lemma of_nat_ge_2: "2 \<le> b \<Longrightarrow> (2 :: rat) \<le> of_nat b"
proof -
  assume "2 \<le> b"
  then have "(of_nat 2 :: rat) \<le> of_nat b" by (simp only: of_nat_le_iff)
  then show ?thesis by simp
qed

lemma ilog_up_bounds:
  "2 \<le> b \<Longrightarrow> 1 \<le> x \<Longrightarrow>
   of_nat b powi ilog_up b x \<le> x \<and> x < of_nat b powi (ilog_up b x + 1)"
proof (induction b x rule: ilog_up.induct)
  case (1 b x)
  from of_nat_ge_2 [OF "1.prems"(1)] have b: "(0 :: rat) < of_nat b" by linarith
  show ?case
  proof (cases "of_nat b \<le> x")
    case True
    with b have "1 \<le> x / of_nat b" by (simp add: pos_le_divide_eq)
    from "1.IH" [OF _ "1.prems"(1) this] True "1.prems"(1)
    have "of_nat b powi ilog_up b (x / of_nat b) \<le> x / of_nat b"
      and "x / of_nat b < of_nat b powi (ilog_up b (x / of_nat b) + 1)"
      by simp_all
    with b have "of_nat b powi ilog_up b (x / of_nat b) * of_nat b \<le> x"
      and "x < of_nat b powi (ilog_up b (x / of_nat b) + 1) * of_nat b"
      by (simp_all add: pos_le_divide_eq pos_divide_less_eq)
    moreover have "(of_nat b :: rat) powi (k + 1) = of_nat b powi k * of_nat b" for k
      using b by (simp add: power_int_add)
    ultimately have "of_nat b powi (ilog_up b (x / of_nat b) + 1) \<le> x"
      and "x < of_nat b powi (ilog_up b (x / of_nat b) + 1 + 1)"
      by (simp_all only:)
    moreover have "ilog_up b x = ilog_up b (x / of_nat b) + 1"
      using True "1.prems"(1) by (subst ilog_up.simps) simp
    ultimately show ?thesis
      by (simp only:)
  next
    case False
    then have "ilog_up b x = 0" by (subst ilog_up.simps) simp
    with "1.prems" False show ?thesis by simp
  qed
qed

lemma ilog_down_bounds:
  "2 \<le> b \<Longrightarrow> 0 < x \<Longrightarrow> x < 1 \<Longrightarrow>
   of_nat b powi ilog_down b x \<le> x \<and> x < of_nat b powi (ilog_down b x + 1)"
proof (induction b x rule: ilog_down.induct)
  case (1 b x)
  from of_nat_ge_2 [OF "1.prems"(1)] have b: "(0 :: rat) < of_nat b" by linarith
  from "1.prems" have e: "ilog_down b x = ilog_down b (x * of_nat b) - 1"
    by (subst ilog_down.simps) simp
  show ?case
  proof (cases "x * of_nat b < 1")
    case True
    from "1.prems" b have "0 < x * of_nat b" by simp
    from "1.IH" [OF _ "1.prems"(1) this True] "1.prems"
    have "of_nat b powi ilog_down b (x * of_nat b) \<le> x * of_nat b"
      and "x * of_nat b < of_nat b powi (ilog_down b (x * of_nat b) + 1)"
      by simp_all
    with b show ?thesis
      by (simp add: e power_int_add power_int_diff pos_divide_le_eq)
  next
    case False
    then have "ilog_down b (x * of_nat b) = 0" by (subst ilog_down.simps) simp
    with e have "ilog_down b x = - 1" by simp
    with False "1.prems" b show ?thesis
      by (simp add: power_int_minus field_simps)
  qed
qed

lemma ilog_bounds:
  assumes "2 \<le> b" and "0 < x"
  shows "of_nat b powi ilog b x \<le> x \<and> x < of_nat b powi (ilog b x + 1)"
proof (cases "1 \<le> x")
  case True
  with ilog_up_bounds [OF assms(1) True] show ?thesis by (simp add: ilog_def)
next
  case False
  then have "x < 1" by simp
  from ilog_down_bounds [OF assms this] False show ?thesis by (simp add: ilog_def)
qed

lemma powi_less_cancel:
  fixes B :: rat
  assumes "1 \<le> B" and "B powi a < B powi b"
  shows "a < b"
proof (rule ccontr)
  assume "\<not> a < b"
  then have "b \<le> a" by simp
  then have "B powi b \<le> B powi a" using assms(1) by (rule power_int_increasing)
  with assms(2) show False by simp
qed

lemma ilog_unique:
  assumes "2 \<le> b" and "of_nat b powi e \<le> x" and "x < of_nat b powi (e + 1)"
  shows "ilog b x = e"
proof -
  from of_nat_ge_2 [OF assms(1)] have b: "(1 :: rat) \<le> of_nat b" "(0 :: rat) < of_nat b"
    by linarith+
  from b(2) have "(0 :: rat) < of_nat b powi e" by simp
  with assms(2) have x: "0 < x" by linarith
  from ilog_bounds [OF assms(1) x]
  have i: "of_nat b powi ilog b x \<le> x" "x < of_nat b powi (ilog b x + 1)"
    by simp_all
  from assms(2) i(2) have "(of_nat b :: rat) powi e < of_nat b powi (ilog b x + 1)" by linarith
  with b(1) have 1: "e < ilog b x + 1" by (rule powi_less_cancel)
  from i(1) assms(3) have "(of_nat b :: rat) powi ilog b x < of_nat b powi (e + 1)" by linarith
  with b(1) have 2: "ilog b x < e + 1" by (rule powi_less_cancel)
  from 1 2 show ?thesis by simp
qed

lemma expo_bounds:
  assumes "x \<noteq> 0"
  shows "2 powi ilog 2 \<bar>x\<bar> \<le> \<bar>x\<bar> \<and> \<bar>x\<bar> < 2 powi (ilog 2 \<bar>x\<bar> + 1)"
  using ilog_bounds [of 2 "\<bar>x\<bar>"] assms by simp

lemma expo_unique:
  assumes "2 powi e \<le> \<bar>x\<bar>" and "\<bar>x\<bar> < 2 powi (e + 1)"
  shows "ilog 2 \<bar>x\<bar> = e"
  using ilog_unique [of 2 e "\<bar>x\<bar>"] assms by simp

lemma dexp_unique:
  assumes "10 powi e \<le> x" and "x < 10 powi (e + 1)"
  shows "ilog 10 x = e"
  using ilog_unique [of 10 e x] assms by simp

lemma js_number_eq:
  assumes "2 powi e \<le> \<bar>x\<bar>" and "\<bar>x\<bar> < 2 powi (e + 1)"
  shows "js_number x = of_int (round_even (x / 2 powi (e - 52))) * 2 powi (e - 52)"
  by (simp add: js_number_def Let_def expo_unique [OF assms])

lemma round_even_bounds:
  "\<bar>of_int (round_even y) - y\<bar> \<le> 1 / 2"
proof -
  have "of_int \<lfloor>y\<rfloor> \<le> y" "y < of_int \<lfloor>y\<rfloor> + 1" by linarith+
  then show ?thesis by (auto simp: round_even_def Let_def)
qed

lemma round_even_unique:
  assumes "\<bar>of_int r - y\<bar> < 1 / 2"
  shows "round_even y = r"
proof -
  from round_even_bounds [of y] assms
  have "\<bar>(of_int (round_even y) :: rat) - of_int r\<bar> < 1" by linarith
  then have "\<bar>(of_int (round_even y - r) :: rat)\<bar> < 1" by simp
  then have "\<bar>round_even y - r\<bar> < 1" by (simp only: flip: of_int_abs)
  then show ?thesis by simp
qed

lemma round_even_of_int [simp]: "round_even (of_int k) = k"
  by (rule round_even_unique) simp

lemma round_even_tie:
  "round_even (of_int k + 1 / 2) = (if even k then k else k + 1)"
proof -
  have "\<lfloor>(of_int k :: rat) + 1 / 2\<rfloor> = k" by (simp add: floor_unique)
  then show ?thesis by (simp add: round_even_def Let_def)
qed

lemma round_even_nonneg: "0 \<le> y \<Longrightarrow> 0 \<le> round_even y"
  by (auto simp: round_even_def Let_def)

lemma js_number_nonneg: "0 \<le> x \<Longrightarrow> 0 \<le> js_number x"
  by (simp add: js_number_def Let_def round_even_nonneg)

lemma js_number_0 [simp]: "js_number 0 = 0"
  using round_even_of_int [of 0] by (simp add: js_number_def)

text \<open>The double nearest to \<open>x\<close> is within half a unit in the last place of it.\<close>

lemma js_number_error:
  "\<bar>js_number x - x\<bar> \<le> \<bar>x\<bar> / 2 ^ 53"
proof (cases "x = 0")
  case True
  then show ?thesis by simp
next
  case False
  let ?u = "(2 :: rat) powi (ilog 2 \<bar>x\<bar> - 52)"
  have u: "0 < ?u" by simp
  have "js_number x - x = (of_int (round_even (x / ?u)) - x / ?u) * ?u"
    by (simp add: js_number_def Let_def left_diff_distrib)
  then have "\<bar>js_number x - x\<bar> = \<bar>of_int (round_even (x / ?u)) - x / ?u\<bar> * ?u"
    by (simp add: abs_mult)
  also from round_even_bounds [of "x / ?u"] u have "\<dots> \<le> 1 / 2 * ?u"
    by (intro mult_right_mono) simp_all
  also have "1 / 2 * ?u = 2 powi ilog 2 \<bar>x\<bar> / 2 ^ 53"
    by (simp add: power_int_diff)
  also from expo_bounds [OF False] have "\<dots> \<le> \<bar>x\<bar> / 2 ^ 53"
    by (intro divide_right_mono) simp_all
  finally show ?thesis .
qed

text \<open>A number with a significand below \<open>2 ^ 53\<close> is a double.\<close>

lemma js_number_exact:
  assumes "\<bar>m\<bar> < 2 ^ 53"
  shows "js_number (of_int m * 2 powi j) = of_int m * 2 powi j"
proof (cases "m = 0")
  case True
  then show ?thesis by simp
next
  case False
  let ?x = "(of_int m :: rat) * 2 powi j"
  let ?e = "ilog 2 \<bar>?x\<bar>"
  from False have nz: "?x \<noteq> 0" by simp
  from expo_bounds [OF nz] have "2 powi ?e \<le> \<bar>?x\<bar>" by simp
  also have "\<bar>?x\<bar> = of_int \<bar>m\<bar> * 2 powi j" by (simp add: abs_mult)
  also from assms have "\<dots> < 2 ^ 53 * 2 powi j"
    by (intro mult_strict_right_mono) (simp_all flip: of_int_less_iff [where 'a = rat])
  also have "\<dots> = 2 powi (53 + j)" by (simp add: power_int_add)
  finally have "?e < 53 + j" by (intro powi_less_cancel [of 2]) simp_all
  then have "0 \<le> j - (?e - 52)" by simp
  then obtain n :: nat where n: "j - (?e - 52) = int n"
    by (rule nonneg_int_cases)
  have "?x / 2 powi (?e - 52) = of_int m * 2 powi (j - (?e - 52))"
    by (simp add: power_int_diff)
  also have "\<dots> = of_int (m * 2 ^ n)" by (simp add: n)
  finally have "round_even (?x / 2 powi (?e - 52)) = m * 2 ^ n"
    by (simp only: round_even_of_int)
  then have "js_number ?x = of_int (m * 2 ^ n) * 2 powi (?e - 52)"
    by (simp add: js_number_def Let_def)
  also have "\<dots> = of_int m * (2 powi (j - (?e - 52)) * 2 powi (?e - 52))"
    by (simp add: n)
  also have "2 powi (j - (?e - 52)) * 2 powi (?e - 52) = (2::rat) powi j"
    by (simp flip: power_int_add)
  finally show ?thesis .
qed

lemma js_number_int:
  assumes "\<bar>k\<bar> \<le> 2 ^ 53"
  shows "js_number (of_int k) = of_int k"
proof (cases "\<bar>k\<bar> < 2 ^ 53")
  case True
  from js_number_exact [OF True, of 0] show ?thesis by simp
next
  case False
  with assms have "k = 2 ^ 53 \<or> k = - (2 ^ 53)" by linarith
  then have "(of_int k :: rat) = of_int (if 0 \<le> k then 1 else - 1) * 2 powi 53"
    by auto
  moreover have "js_number (of_int (if 0 \<le> k then 1 else - 1) * 2 powi 53)
      = of_int (if 0 \<le> k then 1 else - 1) * 2 powi 53"
    by (rule js_number_exact) simp
  ultimately show ?thesis by simp
qed

lemma js_number_numeral:
  "(numeral w :: int) \<le> 2 ^ 53 \<Longrightarrow> js_number (numeral w) = numeral w"
  using js_number_int [of "numeral w"] by simp

lemma js_number_neg_numeral:
  "(numeral w :: int) \<le> 2 ^ 53 \<Longrightarrow> js_number (- numeral w) = - numeral w"
  using js_number_int [of "- numeral w"] by simp

lemma js_number_1 [simp]: "js_number 1 = 1"
  using js_number_int [of 1] by simp

text \<open>
  If \<open>q\<close> lies between two consecutive whole numbers, at a distance from both of
  more than half a unit in its last place, so does the double nearest to it.
\<close>

lemma js_number_between:
  fixes k :: int and q :: rat
  assumes lo: "of_int k + g \<le> q" and hi: "q + g \<le> of_int k + 1"
    and e: "ilog 2 \<bar>q\<bar> \<le> 52"
    and g: "1 / 2 < g * 2 ^ nat (52 - ilog 2 \<bar>q\<bar>)"
  shows "of_int k < js_number q \<and> js_number q < of_int k + 1"
proof -
  let ?n = "nat (52 - ilog 2 \<bar>q\<bar>)"
  let ?r = "round_even (q * 2 ^ ?n)"
  from e have u: "(2::rat) powi (ilog 2 \<bar>q\<bar> - 52) = 1 / 2 ^ ?n"
    by (simp add: power_int_def power_one_over)
  then have js: "js_number q = of_int ?r / 2 ^ ?n"
    by (simp add: js_number_def Let_def)
  have p: "(0::rat) < 2 ^ ?n" by simp
  from round_even_bounds [of "q * 2 ^ ?n"]
  have r1: "q * 2 ^ ?n - 1 / 2 \<le> of_int ?r" and r2: "of_int ?r \<le> q * 2 ^ ?n + 1 / 2"
    by linarith+
  from lo have "(of_int k + g) * 2 ^ ?n \<le> q * 2 ^ ?n"
    by (simp add: mult_right_mono)
  with g r1 have "of_int k * 2 ^ ?n < (of_int ?r :: rat)"
    by (simp add: algebra_simps)
  with p have 1: "of_int k < (of_int ?r :: rat) / 2 ^ ?n"
    by (simp add: pos_less_divide_eq)
  from hi have "(q + g) * 2 ^ ?n \<le> (of_int k + 1) * 2 ^ ?n"
    by (simp add: mult_right_mono)
  with g r2 have "(of_int ?r :: rat) < (of_int k + 1) * 2 ^ ?n"
    by (simp add: algebra_simps)
  with p have 2: "(of_int ?r :: rat) / 2 ^ ?n < of_int k + 1"
    by (simp add: pos_divide_less_eq)
  from 1 2 js show ?thesis by simp
qed

text \<open>
  Dividing a whole number of milliseconds by the milliseconds of a day: the rounding
  of the quotient does not move it across a whole number, so its ceiling is exact.
\<close>

lemma ceiling_js_div:
  fixes D :: int
  assumes "\<bar>D\<bar> \<le> 2 ^ 53"
  shows "\<lceil>js_number (of_int D / 86400000)\<rceil> = \<lceil>(of_int D :: rat) / 86400000\<rceil>"
proof (cases "D mod 86400000 = 0")
  case True
  then have "86400000 dvd D" by (simp add: mod_eq_0_iff_dvd)
  then obtain k where k: "D = k * 86400000" by (auto elim: dvdE)
  with assms have "\<bar>k\<bar> * 86400000 \<le> 2 ^ 53" by (simp add: abs_mult)
  then have "\<bar>k\<bar> \<le> 2 ^ 53" by linarith
  from js_number_int [OF this] show ?thesis by (simp add: k)
next
  case False
  let ?q = "(of_int D :: rat) / 86400000"
  let ?k = "D div 86400000"
  let ?g = "(1 :: rat) / 86400000"
  have m: "1 \<le> D mod 86400000" "D mod 86400000 \<le> 86400000 - 1"
    using False pos_mod_sign [of 86400000 D] pos_mod_bound [of 86400000 D] by linarith+
  have "(of_int D :: rat) = of_int (?k * 86400000 + D mod 86400000)"
    by (simp only: div_mult_mod_eq)
  then have "(of_int D :: rat) = of_int ?k * 86400000 + of_int (D mod 86400000)"
    by (simp only: of_int_add of_int_mult of_int_numeral)
  then have qk: "?q = of_int ?k + of_int (D mod 86400000) / 86400000"
    by (simp add: add_divide_distrib)
  have lo: "of_int ?k + ?g \<le> ?q"
    using m(1) by (simp add: qk divide_right_mono)
  from m(2) have "D mod 86400000 + 1 \<le> 86400000" by simp
  then have "(of_int (D mod 86400000 + 1) :: rat) \<le> of_int 86400000"
    by (rule iffD2 [OF of_int_le_iff])
  then have "(of_int (D mod 86400000) :: rat) + 1 \<le> 86400000" by simp
  then have hi: "?q + ?g \<le> of_int ?k + 1"
    by (simp add: qk flip: add_divide_distrib)
  have nz: "?q \<noteq> 0" using False by auto
  from assms have "(of_int \<bar>D\<bar> :: rat) \<le> of_int (2 ^ 53)"
    by (rule iffD2 [OF of_int_le_iff])
  then have "\<bar>of_int D :: rat\<bar> \<le> 2 ^ 53" by simp
  then have "\<bar>?q\<bar> \<le> 2 ^ 53 / 86400000"
    by (simp add: divide_right_mono)
  also have "\<dots> < (2::rat) powi 27" by simp
  finally have "\<bar>?q\<bar> < 2 powi 27" .
  with expo_bounds [OF nz] have "(2::rat) powi ilog 2 \<bar>?q\<bar> < 2 powi 27" by linarith
  then have e: "ilog 2 \<bar>?q\<bar> < 27" by (intro powi_less_cancel [of 2]) simp_all
  then have "26 \<le> nat (52 - ilog 2 \<bar>?q\<bar>)" by simp
  then have "(2::rat) ^ 26 \<le> 2 ^ nat (52 - ilog 2 \<bar>?q\<bar>)"
    by (intro power_increasing) simp_all
  then have g: "1 / 2 < ?g * 2 ^ nat (52 - ilog 2 \<bar>?q\<bar>)"
    by simp
  from e have e52: "ilog 2 \<bar>?q\<bar> \<le> 52" by simp
  from js_number_between [OF lo hi e52 g]
  have "\<lceil>js_number ?q\<rceil> = ?k + 1"
    by (intro ceiling_unique) simp_all
  moreover from lo hi have "\<lceil>?q\<rceil> = ?k + 1"
    by (intro ceiling_unique) simp_all
  ultimately show ?thesis by simp
qed

lemma json_digits_nonneg:
  assumes "0 < x" and "json_digits k x = Some d"
  shows "0 \<le> d"
proof -
  let ?u = "(10 :: rat) powi (ilog 10 x - int k + 1)"
  have u: "0 < ?u" by simp
  with assms(1) have "0 \<le> x / ?u" by simp
  then have "0 \<le> \<lfloor>x / ?u\<rfloor>" "0 \<le> \<lceil>x / ?u\<rceil>" by simp_all
  then have "(0 :: rat) \<le> of_int \<lfloor>x / ?u\<rfloor> * ?u" "(0 :: rat) \<le> of_int \<lceil>x / ?u\<rceil> * ?u"
    by simp_all
  with assms(2) show ?thesis
    by (auto simp: json_digits_def Let_def split: if_splits)
qed

lemma json_shortest_nonneg:
  "0 < x \<Longrightarrow> 0 \<le> json_shortest n k x"
proof (induction n arbitrary: k)
  case 0
  then show ?case by simp
next
  case (Suc n)
  show ?case
  proof (cases "json_digits k x")
    case None
    with Suc show ?thesis by simp
  next
    case (Some d)
    with json_digits_nonneg [OF Suc.prems Some] show ?thesis by simp
  qed
qed

lemma json_number_nonneg: "0 \<le> x \<Longrightarrow> 0 \<le> json_number x"
  by (simp add: json_number_def json_shortest_nonneg)

lemma round_half_away_of_int [simp]: "round_half_away (of_int k) = k"
proof -
  have "\<lfloor>(of_int k :: rat) + 1 / 2\<rfloor> = k" "\<lfloor>- (of_int k :: rat) + 1 / 2\<rfloor> = - k"
    by (simp_all add: floor_unique)
  then show ?thesis by (simp add: round_half_away_def)
qed

lemma round_half_away_nonneg: "0 \<le> y \<Longrightarrow> 0 \<le> round_half_away y"
  by (simp add: round_half_away_def)

lemma numeric_10_2_nonneg:
  assumes "0 \<le> x" and "numeric_10_2 x = Some t"
  shows "0 \<le> t"
proof -
  from assms(1) have "0 \<le> round_half_away (x * 100)"
    by (intro round_half_away_nonneg) simp
  with assms(2) show ?thesis
    by (auto simp: numeric_10_2_def Let_def split: if_splits)
qed

lemma numeric_10_2_of_int:
  "numeric_10_2 (of_int k) = (if 10 ^ 8 \<le> \<bar>k\<bar> then None else Some (of_int k))"
proof -
  have "round_half_away (of_int k * 100) = k * 100"
    using round_half_away_of_int [of "k * 100"] by simp
  then show ?thesis by (simp add: numeric_10_2_def abs_mult)
qed

text \<open>A double that is one decimal digit and a power of ten is written as it is.\<close>

lemma json_number_digit:
  assumes "1 \<le> s" and "s \<le> 9" and "js_number (of_int s * 10 powi q) = of_int s * 10 powi q"
  shows "json_number (of_int s * 10 powi q) = of_int s * 10 powi q"
proof -
  let ?x = "(of_int s :: rat) * 10 powi q"
  have p: "(0 :: rat) < 10 powi q" by simp
  from assms(1) have s1: "(1 :: rat) \<le> of_int s" by simp
  from assms(2) have s9: "(of_int s :: rat) < 10" by simp
  from s1 p have x: "0 < ?x" by simp
  from s1 p have "1 * 10 powi q \<le> ?x" by (intro mult_right_mono) simp_all
  moreover from s9 p have "?x < 10 * 10 powi q" by (intro mult_strict_right_mono) simp_all
  then have "?x < 10 powi (q + 1)" by (simp add: power_int_add)
  ultimately have e: "ilog 10 ?x = q" by (intro dexp_unique) simp_all
  have "json_digits 1 ?x = Some ?x"
    using assms(3) by (simp add: json_digits_def e)
  with x show ?thesis by (simp add: json_number_def eval_nat_numeral)
qed

lemma json_number_400: "json_number 400 = 400"
  using json_number_digit [of 4 2] js_number_int [of 400]
  by simp

lemma floor_rat_numeral:
  "\<lfloor>(numeral a :: rat) / numeral b\<rfloor> = numeral a div numeral b"
  using floor_divide_of_int_eq [of "numeral a" "numeral b", where ?'a = rat] by simp

lemma ceiling_rat_numeral:
  "\<lceil>(numeral a :: rat) / numeral b\<rceil> = - (- numeral a div numeral b)"
  using floor_divide_of_int_eq [of "- numeral a" "numeral b", where ?'a = rat]
  by (simp add: ceiling_def)

lemma json_shortest_numeral:
  "json_shortest (numeral n) k x =
     (case json_digits k x of Some d \<Rightarrow> d | None \<Rightarrow> json_shortest (pred_numeral n) (Suc k) x)"
  by (simp add: numeral_eq_Suc)

lemma json_number_582604200: "json_number 582604200 = 582604200"
proof -
  have e: "ilog 10 582604200 = 8" by (rule dexp_unique) simp_all
  have j: "js_number (numeral w) = numeral w" if "(numeral w :: int) \<le> 2 ^ 53" for w
    using that by (rule js_number_numeral)
  show ?thesis
    by (simp add: json_number_def json_shortest_numeral json_digits_def Let_def e j
          floor_rat_numeral ceiling_rat_numeral)
qed

lemma round_half_away_unique:
  assumes "\<bar>of_int r - y\<bar> < 1 / 2"
  shows "round_half_away y = r"
proof (cases "0 \<le> y")
  case True
  from assms have "\<lfloor>y + 1 / 2\<rfloor> = r" by (intro floor_unique) linarith+
  with True show ?thesis by (simp add: round_half_away_def)
next
  case False
  have "(of_int (- r) :: rat) = - of_int r" by simp
  with assms have "of_int (- r) \<le> - y + 1 / 2" "- y + 1 / 2 < of_int (- r) + 1"
    by linarith+
  then have "\<lfloor>- y + 1 / 2\<rfloor> = - r" by (rule floor_unique)
  with False show ?thesis by (simp add: round_half_away_def)
qed

text \<open>The nearest double of a double is itself.\<close>

lemma js_number_idem: "js_number (js_number y) = js_number y"
proof (cases "y = 0")
  case True
  then show ?thesis by simp
next
  case False
  let ?e = "ilog 2 \<bar>y\<bar>"
  let ?u = "(2 :: rat) powi (?e - 52)"
  let ?r = "round_even (y / ?u)"
  have u: "0 < ?u" by simp
  have js: "js_number y = of_int ?r * ?u" by (simp add: js_number_def Let_def)
  from expo_bounds [OF False] have "\<bar>y\<bar> < 2 powi (?e + 1)" by simp
  then have "\<bar>y\<bar> / ?u < 2 powi (?e + 1) / ?u" using u by (simp add: divide_strict_right_mono)
  also have "2 powi (?e + 1) / ?u = 2 ^ 53" by (simp add: power_int_diff power_int_add)
  finally have "\<bar>y / ?u\<bar> < 2 ^ 53" by simp
  with round_even_bounds [of "y / ?u"] have "\<bar>(of_int ?r :: rat)\<bar> < 2 ^ 53 + 1" by linarith
  then have "(of_int \<bar>?r\<bar> :: rat) < of_int (2 ^ 53 + 1)" by simp
  then have "\<bar>?r\<bar> < 2 ^ 53 + 1" by (simp only: of_int_less_iff)
  then have r: "\<bar>?r\<bar> \<le> 2 ^ 53" by simp
  show ?thesis
  proof (cases "\<bar>?r\<bar> < 2 ^ 53")
    case True
    from js_number_exact [OF True, of "?e - 52"] show ?thesis by (simp only: js)
  next
    case False
    with r have "?r = 2 ^ 53 \<or> ?r = - (2 ^ 53)" by linarith
    then have "(of_int ?r :: rat) * ?u = of_int (if 0 \<le> ?r then 1 else - 1) * 2 powi (?e + 1)"
      by (auto simp: power_int_diff power_int_add)
    moreover have "js_number (of_int (if 0 \<le> ?r then 1 else - 1) * 2 powi (?e + 1))
        = of_int (if 0 \<le> ?r then 1 else - 1) * 2 powi (?e + 1)"
      by (rule js_number_exact) simp
    ultimately show ?thesis by (simp only: js)
  qed
qed

lemma json_digits_Some: "json_digits k x = Some d \<Longrightarrow> js_number d = x"
  by (auto simp: json_digits_def Let_def split: if_splits)

lemma json_shortest_reads_back:
  "js_number x = x \<Longrightarrow> js_number (json_shortest n k x) = x"
proof (induction n arbitrary: k)
  case 0
  then show ?case by simp
next
  case (Suc n)
  show ?case
  proof (cases "json_digits k x")
    case None
    with Suc show ?thesis by simp
  next
    case (Some d)
    with json_digits_Some [OF Some] show ?thesis by simp
  qed
qed

text \<open>What \<^verbatim>\<open>JSON.stringify\<close> writes for a double that is not negative reads back as it.\<close>

lemma json_number_reads_back:
  assumes "0 \<le> x" and "js_number x = x"
  shows "js_number (json_number x) = x"
  using assms by (cases "x = 0") (simp_all add: json_number_def json_shortest_reads_back)

lemma part_le:
  fixes a :: rat
  assumes "0 \<le> a" and "1 \<le> k"
  shows "a / 2 ^ k \<le> a / 2"
proof -
  from assms(2) have "(2 :: rat) ^ 1 \<le> 2 ^ k" by (intro power_increasing) simp_all
  with assms(1) show ?thesis by (intro divide_left_mono) simp_all
qed

lemma json_number_near:
  assumes "0 \<le> x" and "js_number x = x"
  shows "\<bar>json_number x - x\<bar> \<le> x / 2 ^ 52"
proof -
  define d where "d = json_number x"
  from assms(1) have d: "0 \<le> d" unfolding d_def by (rule json_number_nonneg)
  from js_number_error [of d] json_number_reads_back [OF assms] d
  have 1: "\<bar>x - d\<bar> \<le> d / 2 ^ 53" by (simp add: d_def)
  from part_le [OF d, of 53] 1 have "d \<le> 2 * x" by linarith
  then have "d / 2 ^ 53 \<le> 2 * x / 2 ^ 53" by (intro divide_right_mono) simp_all
  moreover have "2 * x / 2 ^ 53 = x / 2 ^ 52" by simp
  ultimately have "\<bar>d - x\<bar> \<le> x / 2 ^ 52" using 1 by linarith
  then show ?thesis by (simp only: d_def)
qed

text \<open>The two roundings of the product move it by less than \<open>2 ^ - 51\<close> of its size.\<close>

lemma js_product_error:
  "\<bar>js_number (n * js_number p) - n * p\<bar> \<le> \<bar>n * p\<bar> / 2 ^ 51"
proof -
  have "\<bar>n * js_number p - n * p\<bar> = \<bar>n\<bar> * \<bar>js_number p - p\<bar>"
    by (simp add: abs_mult flip: right_diff_distrib)
  also from js_number_error [of p] have "\<dots> \<le> \<bar>n\<bar> * (\<bar>p\<bar> / 2 ^ 53)"
    by (intro mult_left_mono) simp_all
  also have "\<dots> = \<bar>n * p\<bar> / 2 ^ 53" by (simp add: abs_mult)
  finally have 1: "\<bar>n * js_number p - n * p\<bar> \<le> \<bar>n * p\<bar> / 2 ^ 53" .
  then have "\<bar>n * js_number p\<bar> \<le> \<bar>n * p\<bar> + \<bar>n * p\<bar> / 2 ^ 53" by linarith
  then have "\<bar>n * js_number p\<bar> / 2 ^ 53 \<le> (\<bar>n * p\<bar> + \<bar>n * p\<bar> / 2 ^ 53) / 2 ^ 53"
    by (intro divide_right_mono) simp_all
  with js_number_error [of "n * js_number p"]
  have 2: "\<bar>js_number (n * js_number p) - n * js_number p\<bar>
             \<le> (\<bar>n * p\<bar> + \<bar>n * p\<bar> / 2 ^ 53) / 2 ^ 53"
    by linarith
  have 3: "(A + A / 2 ^ 53) / 2 ^ 53 + A / 2 ^ 53 \<le> A / 2 ^ 51" if "0 \<le> A" for A :: rat
    using that by (simp add: field_simps)
  have "\<bar>js_number (n * js_number p) - n * p\<bar>
          \<le> \<bar>js_number (n * js_number p) - n * js_number p\<bar> + \<bar>n * js_number p - n * p\<bar>"
    by linarith
  also from 1 2 have "\<dots> \<le> (\<bar>n * p\<bar> + \<bar>n * p\<bar> / 2 ^ 53) / 2 ^ 53 + \<bar>n * p\<bar> / 2 ^ 53"
    by (rule add_mono [rotated])
  also have "\<dots> \<le> \<bar>n * p\<bar> / 2 ^ 51"
    by (rule 3) simp
  finally show ?thesis .
qed

text \<open>
  For a price of two decimals that is not negative, and a number of nights whose
  total is below the limit of the column, the store holds nights times price.
\<close>

lemma stored_total_exact:
  assumes "0 \<le> n" and "0 \<le> c" and "n * c < 10 ^ 10"
  shows "numeric_10_2 (json_number (js_number (of_int n * js_number (of_int c / 100))))
           = Some (of_int n * (of_int c / 100))"
proof -
  define T :: rat where "T = of_int n * (of_int c / 100)"
  define x where "x = js_number (of_int n * js_number (of_int c / 100))"
  define d where "d = json_number x"
  from assms(1,2) have T0: "0 \<le> T" by (simp add: T_def)
  have Tc: "T * 100 = of_int (n * c)" by (simp add: T_def)
  from assms(3) have "(of_int (n * c) :: rat) < of_int (10 ^ 10)" by (simp only: of_int_less_iff)
  with Tc have T1: "T < 10 ^ 8" by simp
  from assms(2) have "0 \<le> js_number (of_int c / 100)" by (intro js_number_nonneg) simp
  with assms(1) have "0 \<le> of_int n * js_number (of_int c / 100)" by simp
  then have x0: "0 \<le> x" unfolding x_def by (rule js_number_nonneg)
  have xx: "js_number x = x" unfolding x_def by (rule js_number_idem)
  from js_product_error [of "of_int n" "of_int c / 100"] T0
  have 1: "\<bar>x - T\<bar> \<le> T / 2 ^ 51" by (simp only: x_def T_def abs_of_nonneg)
  from json_number_near [OF x0 xx] have 2: "\<bar>d - x\<bar> \<le> x / 2 ^ 52" by (simp only: d_def)
  from part_le [OF T0, of 51] T0 1 have "x \<le> 2 * T" by linarith
  then have "x / 2 ^ 52 \<le> 2 * T / 2 ^ 52" by (intro divide_right_mono) simp_all
  moreover have "2 * T / 2 ^ 52 = T / 2 ^ 51" by simp
  ultimately have 3: "\<bar>d - T\<bar> \<le> T / 2 ^ 51 + T / 2 ^ 51" using 1 2 by linarith
  from T1 have "T / 2 ^ 51 < 10 ^ 8 / 2 ^ 51" by (intro divide_strict_right_mono) simp_all
  also have "\<dots> < (1 :: rat) / 400" by simp
  finally have "T / 2 ^ 51 < 1 / 400" .
  with 3 have "\<bar>d - T\<bar> < 1 / 200" by linarith
  then have "\<bar>T * 100 - d * 100\<bar> < 1 / 2" by linarith
  then have "\<bar>of_int (n * c) - d * 100\<bar> < 1 / 2" by (simp only: Tc)
  then have r: "round_half_away (d * 100) = n * c" by (rule round_half_away_unique)
  from assms have "0 \<le> n * c" by simp
  with assms(3) r have "numeric_10_2 d = Some (of_int (n * c) / 100)"
    by (simp add: numeric_10_2_def)
  also have "(of_int (n * c) :: rat) / 100 = T" by (simp add: T_def)
  finally show ?thesis by (simp only: d_def x_def T_def)
qed

subsection \<open>Auxiliary facts\<close>

lemma fold_max_ge:
  fixes a :: nat
  shows "a \<le> fold max xs a \<and> (\<forall>x\<in>set xs. x \<le> fold max xs a)"
proof (induction xs arbitrary: a)
  case Nil
  show ?case by simp
next
  case (Cons y ys)
  from Cons.IH [of "max y a"] show ?case by auto
qed

text \<open>The number of a new row is not the number of any row of the table.\<close>

lemma new_booking_id_fresh:
  "new_booking_id db \<notin> set (map b_id (db_bookings db))"
proof
  assume "new_booking_id db \<in> set (map b_id (db_bookings db))"
  with fold_max_ge [of 0 "map b_id (db_bookings db)"]
  have "new_booking_id db \<le> fold max (map b_id (db_bookings db)) 0"
    by blast
  then show False by (simp add: new_booking_id_def)
qed

lemma day_ms_pos: "0 < day_ms"
  by (simp add: day_ms_def)

lemma date_ms_less: "date_ms a < date_ms b \<longleftrightarrow> a < b"
  by (simp add: date_ms_def day_ms_def)

lemma date_ms_le: "date_ms a \<le> date_ms b \<longleftrightarrow> a \<le> b"
  by (simp add: date_ms_def day_ms_def)

lemma digit_val_range:
  "c \<in> set ''0123456789'' \<Longrightarrow> 0 \<le> digit_val c \<and> digit_val c \<le> 9"
  by (auto simp: digit_val_def)

lemma digit_val_01: "c \<in> set ''01'' \<Longrightarrow> 0 \<le> digit_val c \<and> digit_val c \<le> 1"
  by (auto simp: digit_val_def)

lemma digit_val_0123: "c \<in> set ''0123'' \<Longrightarrow> 0 \<le> digit_val c \<and> digit_val c \<le> 3"
  by (auto simp: digit_val_def)

lemma digit_val_012345: "c \<in> set ''012345'' \<Longrightarrow> 0 \<le> digit_val c \<and> digit_val c \<le> 5"
  by (auto simp: digit_val_def)

lemma digit_val_2: "digit_val CHR ''2'' = 2"
  by (simp add: digit_val_def)

lemma time_of_day_bounds:
  fixes h1 h2 m1 m2 :: int
  assumes "0 \<le> h1" "0 \<le> h2" "h1 * 10 + h2 \<le> 23" "0 \<le> m1" "m1 \<le> 5" "0 \<le> m2" "m2 \<le> 9"
  shows "0 \<le> ((h1 * 10 + h2) * 60 + (m1 * 10 + m2)) * 60000
       \<and> ((h1 * 10 + h2) * 60 + (m1 * 10 + m2)) * 60000 < 86400000"
  using assms by auto

text \<open>A time of day accepted by the schema lies within the day.\<close>

lemma valid_time_bounds:
  assumes "valid_time s"
  shows "0 \<le> time_ms s \<and> time_ms s < day_ms"
proof -
  from assms obtain h1 h2 c m1 m2 where s: "s = [h1, h2, c, m1, m2]"
    and h: "(h1 \<in> set ''01'' \<and> h2 \<in> set ''0123456789'') \<or> (h1 = CHR ''2'' \<and> h2 \<in> set ''0123'')"
    and m1: "m1 \<in> set ''012345''" and m2: "m2 \<in> set ''0123456789''"
    by (auto simp: valid_time_def split: list.splits)
  from h have hh: "0 \<le> digit_val h1 \<and> 0 \<le> digit_val h2 \<and> digit_val h1 * 10 + digit_val h2 \<le> 23"
  proof
    assume a: "h1 \<in> set ''01'' \<and> h2 \<in> set ''0123456789''"
    with digit_val_01 [of h1] digit_val_range [of h2] show ?thesis by linarith
  next
    assume a: "h1 = CHR ''2'' \<and> h2 \<in> set ''0123''"
    with digit_val_2 digit_val_0123 [of h2] show ?thesis by simp
  qed
  from digit_val_012345 [OF m1] digit_val_range [OF m2] hh
  have "0 \<le> ((digit_val h1 * 10 + digit_val h2) * 60 + (digit_val m1 * 10 + digit_val m2)) * 60000
       \<and> ((digit_val h1 * 10 + digit_val h2) * 60 + (digit_val m1 * 10 + digit_val m2)) * 60000 < 86400000"
    by (intro time_of_day_bounds) auto
  then show ?thesis by (simp add: s time_ms_def day_ms_def)
qed

text \<open>A later day gives a later instant, whatever the two times of day.\<close>

lemma datetime_ms_mono:
  assumes "valid_time t1" "valid_time t2" "d1 < d2"
  shows "datetime_ms d1 t1 < datetime_ms d2 t2"
proof -
  from assms(3) have "d1 + 1 \<le> d2" by simp
  then have "(d1 + 1) * day_ms \<le> d2 * day_ms"
    using day_ms_pos by (simp only: mult_right_mono less_imp_le)
  then have "date_ms d1 + day_ms \<le> date_ms d2"
    by (simp add: date_ms_def algebra_simps)
  with valid_time_bounds [OF assms(1)] valid_time_bounds [OF assms(2)]
  show ?thesis by (simp add: datetime_ms_def)
qed

lemma validateDates_None:
  "validateDates today ci co = None \<longleftrightarrow> today \<le> ci \<and> ci < co"
  by (auto simp: validateDates_def)

lemma validateDates_Some:
  "validateDates today ci co = Some t \<Longrightarrow> t = CheckInPast \<or> t = CheckOutNotAfter"
  by (auto simp: validateDates_def split: if_splits)

lemma bookingSchema_parse_Inr:
  "bookingSchema_parse f = Inr v \<longleftrightarrow>
     is_uuid (f_guest_id f) \<and> is_uuid (f_room_id f) \<and> valid_time (f_check_in_time f) \<and>
     valid_time (f_check_out_time f) \<and> length (f_notes f) \<le> 1000 \<and>
     f_check_in_date f = Some (v_check_in_date v) \<and> f_check_out_date f = Some (v_check_out_date v) \<and>
     v_guest_id v = f_guest_id f \<and> v_room_id v = f_room_id f \<and>
     v_check_in_time v = f_check_in_time f \<and> v_check_out_time v = f_check_out_time f \<and>
     v_notes v = f_notes f"
  by (cases v) (auto simp: bookingSchema_parse_def split: option.splits)

lemma ceiling_int_div:
  fixes a b :: int
  assumes "0 < b"
  shows "\<lceil>(of_int a :: rat) / of_int b\<rceil> = a div b + (if a mod b = 0 then 0 else 1)"
proof -
  have "\<lceil>(of_int a :: rat) / of_int b\<rceil> = - \<lfloor>(of_int (- a) :: rat) / of_int b\<rfloor>"
    by (simp add: ceiling_def)
  also have "\<dots> = - ((- a) div b)"
    by (simp only: floor_divide_of_int_eq)
  also have "\<dots> = a div b + (if a mod b = 0 then 0 else 1)"
    using assms by (simp add: zdiv_zminus1_eq_if)
  finally show ?thesis .
qed

lemma nights_ceiling:
  "\<lceil>(of_int (co - ci) :: rat) / of_int (1000 * 60 * 60 * 24)\<rceil> = nights_spec ci co"
  using ceiling_int_div [of day_ms "co - ci"] day_ms_pos
  by (simp add: nights_spec_def day_ms_def)

text \<open>
  The difference of two instants at most \<open>2 ^ 53\<close> milliseconds apart (285,000 years)
  is a double, and the rounding of the quotient leaves its ceiling as it is: the
  nights of the page are the nights of the specification.
\<close>

lemma nights_js:
  assumes "\<bar>co - ci\<bar> \<le> 2 ^ 53"
  shows "\<lceil>js_number (js_number (of_int co - of_int ci) / of_int (1000 * 60 * 60 * 24))\<rceil>
           = nights_spec ci co"
proof -
  from js_number_int [OF assms]
  have "js_number (of_int co - of_int ci) = of_int (co - ci)" by simp
  moreover from assms
  have "\<lceil>js_number (of_int (co - ci) / 86400000)\<rceil> = \<lceil>(of_int (co - ci) :: rat) / 86400000\<rceil>"
    by (rule ceiling_js_div)
  moreover from nights_ceiling [of co ci]
  have "\<lceil>(of_int (co - ci) :: rat) / 86400000\<rceil> = nights_spec ci co" by simp
  ultimately show ?thesis by simp
qed

lemma calculateTotalPrice_Some:
  assumes "find (\<lambda>r. r_id r = roomId) rooms = Some room" and "\<bar>co - ci\<bar> \<le> 2 ^ 53"
  shows "calculateTotalPrice rooms roomId (Some ci) (Some co)
           = js_number (of_int (nights_spec ci co) * js_number (r_price_per_night room))"
  using assms(1) nights_js [OF assms(2)] by (simp add: calculateTotalPrice_def)

lemma calculateTotalPrice_nonneg:
  assumes "\<forall>r\<in>set rooms. r_id r = roomId \<longrightarrow> 0 \<le> r_price_per_night r" and "ci \<le> co"
  shows "0 \<le> calculateTotalPrice rooms roomId (Some ci) (Some co)"
proof (cases "find (\<lambda>r. r_id r = roomId) rooms")
  case None
  then show ?thesis by (simp add: calculateTotalPrice_def)
next
  case (Some room)
  then have "room \<in> set rooms" and "r_id room = roomId"
    by (auto simp: find_Some_iff)
  with assms(1) have "0 \<le> r_price_per_night room" by simp
  then have p: "0 \<le> js_number (r_price_per_night room)" by (rule js_number_nonneg)
  from assms(2) have "(0 :: rat) \<le> of_int (co - ci)" by simp
  then have "0 \<le> js_number (of_int (co - ci))" by (rule js_number_nonneg)
  then have "0 \<le> js_number (of_int (co - ci)) / 86400000" by simp
  then have "0 \<le> js_number (js_number (of_int (co - ci)) / 86400000)" by (rule js_number_nonneg)
  then have "0 \<le> \<lceil>js_number (js_number (of_int (co - ci)) / 86400000)\<rceil>"
    by (simp only: zero_le_ceiling)
  with p have "0 \<le> of_int \<lceil>js_number (js_number (of_int (co - ci)) / 86400000)\<rceil>
                    * js_number (r_price_per_night room)"
    by simp
  then have "0 \<le> js_number (of_int \<lceil>js_number (js_number (of_int (co - ci)) / 86400000)\<rceil>
                    * js_number (r_price_per_night room))"
    by (rule js_number_nonneg)
  then show ?thesis by (simp add: calculateTotalPrice_def Some)
qed

text \<open>
  The doubles of 0.10 and 89.90, and of three times the first and seven times the
  second (\<open>10808639105689191 = 3 * 3602879701896397\<close>,
  \<open>22141525355501979 = 7 * 3163075050785997\<close>).
\<close>

lemma js_number_tenth: "js_number (1 / 10) = 3602879701896397 / 36028797018963968"
proof -
  have r: "round_even (36028797018963968 / 5) = 7205759403792794"
    by (rule round_even_unique) simp
  show ?thesis
    by (subst js_number_eq [of "- 4"]) (simp_all add: r)
qed

lemma js_number_three_tenths:
  "js_number (10808639105689191 / 36028797018963968) = 1351079888211149 / 4503599627370496"
proof -
  have "round_even (of_int 5404319552844595 + 1 / 2) = 5404319552844596"
    by (simp only: round_even_tie) simp
  then have r: "round_even (10808639105689191 / 2) = 5404319552844596"
    by simp
  show ?thesis
    by (subst js_number_eq [of "- 2"]) (simp_all add: r)
qed

lemma js_number_899_tenths: "js_number (899 / 10) = 3163075050785997 / 35184372088832"
proof -
  have r: "round_even (31630750507859968 / 5) = 6326150101571994"
    by (rule round_even_unique) simp
  show ?thesis
    by (subst js_number_eq [of 6]) (simp_all add: r)
qed

lemma js_number_7_times:
  "js_number (22141525355501979 / 35184372088832) = 5535381338875495 / 8796093022208"
proof -
  have r: "round_even (22141525355501979 / 4) = 5535381338875495"
    by (rule round_even_unique) simp
  show ?thesis
    by (subst js_number_eq [of 9]) (simp_all add: r)
qed

lemma nights_spec_days: "nights_spec (date_ms a) (date_ms b) = b - a"
proof -
  have "date_ms b - date_ms a = (b - a) * day_ms"
    by (simp add: date_ms_def algebra_simps)
  with day_ms_pos show ?thesis
    by (simp add: nights_spec_def)
qed

lemma days_apart:
  assumes "\<bar>b - a\<bar> \<le> 100000000"
  shows "\<bar>date_ms b - date_ms a\<bar> \<le> 2 ^ 53"
proof -
  have "date_ms b - date_ms a = (b - a) * 86400000"
    by (simp add: date_ms_def day_ms_def algebra_simps)
  then have "\<bar>date_ms b - date_ms a\<bar> = \<bar>b - a\<bar> * 86400000"
    by (simp only: abs_mult abs_numeral)
  with assms show ?thesis by simp
qed

text \<open>The price of room 101 for stays of whole days.\<close>

lemma price_101:
  assumes "\<bar>b - a\<bar> \<le> 100000000"
  shows "calculateTotalPrice [room_101] (r_id room_101) (Some (date_ms a)) (Some (date_ms b))
           = of_int (b - a) * 200"
proof -
  have "find (\<lambda>r. r_id r = r_id room_101) [room_101] = Some room_101"
    by simp
  from calculateTotalPrice_Some [OF this days_apart [OF assms]]
  have "calculateTotalPrice [room_101] (r_id room_101) (Some (date_ms a)) (Some (date_ms b))
           = js_number (of_int (b - a) * js_number 200)"
    by (simp add: nights_spec_days room_101_def)
  also from js_number_int [of 200] have "js_number 200 = 200" by simp
  also from assms have "\<bar>(b - a) * 200\<bar> \<le> 2 ^ 53" by (simp add: abs_mult)
  from js_number_int [OF this] have "js_number (of_int (b - a) * 200) = of_int (b - a) * 200"
    by simp
  finally show ?thesis .
qed

lemma total_400: "numeric_10_2 (json_number 400) = Some 400"
  using numeric_10_2_of_int [of 400] by (simp add: json_number_400)

lemma total_582604200: "numeric_10_2 (json_number 582604200) = None"
  using numeric_10_2_of_int [of 582604200] by (simp add: json_number_582604200)

text \<open>
  For a room whose nightly price has two decimals and is not negative, and a stay of
  whole days whose total is below the limit of the column, the store holds nights
  times price.
\<close>

lemma stored_price:
  assumes "find (\<lambda>r. r_id r = roomId) rooms = Some room"
    and "r_price_per_night room = of_int c / 100" and "0 \<le> c"
    and "a \<le> b" and "b - a \<le> 100000000" and "(b - a) * c < 10 ^ 10"
  shows "numeric_10_2 (json_number
           (calculateTotalPrice rooms roomId (Some (date_ms a)) (Some (date_ms b))))
         = Some (of_int (b - a) * r_price_per_night room)"
proof -
  from assms(4,5) have "\<bar>b - a\<bar> \<le> 100000000" by simp
  from calculateTotalPrice_Some [OF assms(1) days_apart [OF this]]
  have "calculateTotalPrice rooms roomId (Some (date_ms a)) (Some (date_ms b))
          = js_number (of_int (b - a) * js_number (of_int c / 100))"
    by (simp only: nights_spec_days assms(2))
  moreover from assms(4) have "0 \<le> b - a" by simp
  from stored_total_exact [OF this assms(3,6)]
  have "numeric_10_2 (json_number (js_number (of_int (b - a) * js_number (of_int c / 100))))
          = Some (of_int (b - a) * (of_int c / 100))" .
  ultimately show ?thesis by (simp only: assms(2))
qed

text \<open>Three nights in room 102, at 0.10, are held as 0.30.\<close>

lemma stored_price_102:
  "numeric_10_2 (json_number
     (calculateTotalPrice [room_102] (r_id room_102) (Some (date_ms 19875)) (Some (date_ms 19878))))
   = Some (3 / 10)"
proof -
  have "find (\<lambda>r. r_id r = r_id room_102) [room_102] = Some room_102" by simp
  moreover have "r_price_per_night room_102 = of_int 10 / 100" by (simp add: room_102_def)
  ultimately have "numeric_10_2 (json_number
     (calculateTotalPrice [room_102] (r_id room_102) (Some (date_ms 19875)) (Some (date_ms 19878))))
   = Some (of_int (19878 - 19875) * r_price_per_night room_102)"
    by (rule stored_price) simp_all
  then show ?thesis by (simp add: room_102_def)
qed

subsection \<open>Pricing\<close>

text \<open>
  C8, as the page has it. The product is a product of doubles: for room 102, at 0.10
  a night, three nights cost 0.30000000000000004, the double next above 0.3, and for
  room 103, at 89.90 a night, seven nights cost 629.3000000000001; neither is nights
  times the nightly price.
\<close>

theorem calculateTotalPrice_rounds:
  "r_price_per_night room_102 = 1 / 10
   \<and> nights_spec (date_ms 19875) (date_ms 19878) = 3
   \<and> calculateTotalPrice [room_102] (r_id room_102) (Some (date_ms 19875)) (Some (date_ms 19878))
       = 1351079888211149 / 4503599627370496
   \<and> (1351079888211149 / 4503599627370496 :: rat) \<noteq> 3 * (1 / 10)
   \<and> r_price_per_night room_103 = 899 / 10
   \<and> nights_spec (date_ms 19875) (date_ms 19882) = 7
   \<and> calculateTotalPrice [room_103] (r_id room_103) (Some (date_ms 19875)) (Some (date_ms 19882))
       = 5535381338875495 / 8796093022208
   \<and> (5535381338875495 / 8796093022208 :: rat) \<noteq> 7 * (899 / 10)"
proof -
  have f2: "find (\<lambda>r. r_id r = r_id room_102) [room_102] = Some room_102"
    and f3: "find (\<lambda>r. r_id r = r_id room_103) [room_103] = Some room_103"
    by simp_all
  have d2: "\<bar>date_ms 19878 - date_ms 19875\<bar> \<le> 2 ^ 53"
    and d3: "\<bar>date_ms 19882 - date_ms 19875\<bar> \<le> 2 ^ 53"
    by (rule days_apart, simp)+
  have p2: "r_price_per_night room_102 = 1 / 10" and p3: "r_price_per_night room_103 = 899 / 10"
    by (simp_all add: room_102_def room_103_def)
  have "calculateTotalPrice [room_102] (r_id room_102) (Some (date_ms 19875)) (Some (date_ms 19878))
       = 1351079888211149 / 4503599627370496"
    by (simp add: calculateTotalPrice_Some [OF f2 d2] nights_spec_days p2 js_number_tenth
          js_number_three_tenths)
  moreover
  have "calculateTotalPrice [room_103] (r_id room_103) (Some (date_ms 19875)) (Some (date_ms 19882))
       = 5535381338875495 / 8796093022208"
    by (simp add: calculateTotalPrice_Some [OF f3 d3] nights_spec_days p3 js_number_899_tenths
          js_number_7_times)
  ultimately show ?thesis
    by (simp add: nights_spec_days p2 p3)
qed

text \<open>
  C8, amended. \<^verbatim>\<open>calculateTotalPrice\<close> returns the double nearest to nights times the
  double of the nightly price of the room it finds in the page's room list, where
  nights is the ceiling of the difference of the two instants in days: the whole days,
  and one more for a remaining partial day (\<open>nights_spec\<close>). The result is within
  \<open>2 ^ - 51\<close> of the size of nights times price from it, and it is nights times price
  when the price is a whole number (and the product at most \<open>2 ^ 53\<close>). The function
  returns 0 when the room is not in the list or when either date is empty. For a room
  at 200.00 a night, from 2024-06-01 (day 19875) to 2024-06-03 (day 19877), the result
  is 400.00.
\<close>

theorem calculateTotalPrice_double:
  "(find (\<lambda>r. r_id r = roomId) rooms = Some room \<and> \<bar>co - ci\<bar> \<le> 2 ^ 53 \<longrightarrow>
      calculateTotalPrice rooms roomId (Some ci) (Some co)
        = js_number (of_int (nights_spec ci co) * js_number (r_price_per_night room))
      \<and> \<bar>calculateTotalPrice rooms roomId (Some ci) (Some co)
           - of_int (nights_spec ci co) * r_price_per_night room\<bar>
          \<le> \<bar>of_int (nights_spec ci co) * r_price_per_night room\<bar> / 2 ^ 51
      \<and> (r_price_per_night room = of_int p \<and> \<bar>p\<bar> \<le> 2 ^ 53 \<and> \<bar>nights_spec ci co * p\<bar> \<le> 2 ^ 53
            \<longrightarrow> calculateTotalPrice rooms roomId (Some ci) (Some co)
                  = of_int (nights_spec ci co) * r_price_per_night room))
   \<and> (find (\<lambda>r. r_id r = roomId) rooms = None \<longrightarrow>
        calculateTotalPrice rooms roomId checkIn checkOut = 0)
   \<and> calculateTotalPrice rooms roomId None checkOut = 0
   \<and> calculateTotalPrice rooms roomId checkIn None = 0
   \<and> (find (\<lambda>r. r_id r = roomId) rooms = Some room \<and> r_price_per_night room = 200 \<longrightarrow>
        calculateTotalPrice rooms roomId (Some (date_ms 19875)) (Some (date_ms 19877)) = 400)"
proof -
  have found: "calculateTotalPrice rooms roomId (Some a) (Some b)
        = js_number (of_int (nights_spec a b) * js_number (r_price_per_night room))"
    if "find (\<lambda>r. r_id r = roomId) rooms = Some room" "\<bar>b - a\<bar> \<le> 2 ^ 53" for a b
    using that by (rule calculateTotalPrice_Some)
  have near: "\<bar>calculateTotalPrice rooms roomId (Some ci) (Some co)
           - of_int (nights_spec ci co) * r_price_per_night room\<bar>
          \<le> \<bar>of_int (nights_spec ci co) * r_price_per_night room\<bar> / 2 ^ 51"
    if "find (\<lambda>r. r_id r = roomId) rooms = Some room" "\<bar>co - ci\<bar> \<le> 2 ^ 53"
    using js_product_error [of "of_int (nights_spec ci co)" "r_price_per_night room"]
    by (simp only: found [OF that])
  have whole: "calculateTotalPrice rooms roomId (Some ci) (Some co)
                  = of_int (nights_spec ci co) * r_price_per_night room"
    if "find (\<lambda>r. r_id r = roomId) rooms = Some room" "\<bar>co - ci\<bar> \<le> 2 ^ 53"
      "r_price_per_night room = of_int p" "\<bar>p\<bar> \<le> 2 ^ 53" "\<bar>nights_spec ci co * p\<bar> \<le> 2 ^ 53"
  proof -
    from js_number_int [OF that(4)] have "js_number (of_int p) = of_int p" .
    moreover from js_number_int [OF that(5)]
    have "js_number (of_int (nights_spec ci co) * of_int p) = of_int (nights_spec ci co) * of_int p"
      by simp
    ultimately show ?thesis by (simp add: found [OF that(1,2)] that(3))
  qed
  have unknown: "calculateTotalPrice rooms roomId checkIn checkOut = 0"
    if "find (\<lambda>r. r_id r = roomId) rooms = None"
    using that by (simp add: calculateTotalPrice_def)
  have no_in: "calculateTotalPrice rooms roomId None checkOut = 0"
    by (simp add: calculateTotalPrice_def split: option.splits)
  have no_out: "calculateTotalPrice rooms roomId checkIn None = 0"
    by (simp add: calculateTotalPrice_def split: option.splits)
  have example: "calculateTotalPrice rooms roomId (Some (date_ms 19875)) (Some (date_ms 19877)) = 400"
    if "find (\<lambda>r. r_id r = roomId) rooms = Some room" "r_price_per_night room = 200"
  proof -
    have d: "\<bar>date_ms 19877 - date_ms 19875\<bar> \<le> 2 ^ 53" by (rule days_apart) simp
    from js_number_int [of 200] js_number_int [of 400] show ?thesis
      by (simp add: found [OF that(1) d] that(2) nights_spec_days)
  qed
  from found near whole unknown no_in no_out example show ?thesis by blast
qed

text \<open>
  At room 101: two nights cost 400.00; one millisecond past two days is a third
  night; a room that is not in the list costs 0.
\<close>

theorem calculateTotalPrice_double_witness:
  "find (\<lambda>r. r_id r = r_id room_101) [room_101] = Some room_101
   \<and> \<bar>date_ms 19877 + 1 - date_ms 19875\<bar> \<le> 2 ^ 53
   \<and> r_price_per_night room_101 = of_int 200 \<and> \<bar>200 :: int\<bar> \<le> 2 ^ 53
   \<and> \<bar>nights_spec (date_ms 19875) (date_ms 19877 + 1) * 200\<bar> \<le> 2 ^ 53
   \<and> find (\<lambda>r. r_id r = ''none'') [room_101] = None
   \<and> calculateTotalPrice [room_101] (r_id room_101) (Some (date_ms 19875)) (Some (date_ms 19877)) = 400
   \<and> calculateTotalPrice [room_101] (r_id room_101) (Some (date_ms 19875)) (Some (date_ms 19877 + 1))
       = 600
   \<and> calculateTotalPrice [room_101] ''none'' (Some (date_ms 19875)) (Some (date_ms 19877)) = 0"
proof -
  have f: "find (\<lambda>r. r_id r = r_id room_101) [room_101] = Some room_101" by simp
  have d: "\<bar>date_ms 19877 + 1 - date_ms 19875\<bar> \<le> 2 ^ 53"
    by (simp add: date_ms_def day_ms_def)
  have p: "r_price_per_night room_101 = of_int 200" "r_price_per_night room_101 = 200"
    by (simp_all add: room_101_def)
  have u: "find (\<lambda>r. r_id r = ''none'') [room_101] = None" by (simp add: room_101_def)
  have n: "nights_spec (date_ms 19875) (date_ms 19877 + 1) = 3"
    by (simp add: nights_spec_def date_ms_def day_ms_def)
  from calculateTotalPrice_double [of "r_id room_101" "[room_101]" room_101
         "date_ms 19877 + 1" "date_ms 19875" 200 "Some (date_ms 19875)" "Some (date_ms 19877)"]
       calculateTotalPrice_double [of "''none''" "[room_101]" room_101
         "date_ms 19877" "date_ms 19875" 200 "Some (date_ms 19875)" "Some (date_ms 19877)"]
       f d p u n
  show ?thesis by simp
qed

subsection \<open>The handlers, step by step\<close>

lemmas env_defs = env_0_def env_select_error_def env_1_def env_brasilia_def e_today_def
  local_date_def

lemmas hotel_defs = guest_G1_def room_101_def store_0_def store_1_def env_defs form_of_def
  validated_of_def booking_1_def booking_of_def datetime_ms_def time_ms_def digit_val_def date_ms_def day_ms_def

lemma select_overlapping_blocks:
  "select_overlapping e db roomId checkIn checkOut =
     (if e_select_error e then None
      else Some (map b_id (filter (\<lambda>b. blocks b roomId checkIn checkOut) (db_bookings db))))"
  by (simp add: select_overlapping_def blocks_def)

lemma checkRoomAvailability_blocks:
  "checkRoomAvailability e db roomId checkIn checkOut \<longleftrightarrow>
     \<not> e_select_error e \<and> \<not> (\<exists>b\<in>set (db_bookings db). blocks b roomId checkIn checkOut)"
  by (auto simp: checkRoomAvailability_def select_overlapping_blocks filter_empty_conv)

lemma update_room_status_frame [simp]:
  "db_bookings (update_room_status e db roomId st) = db_bookings db"
  "db_guests (update_room_status e db roomId st) = db_guests db"
  "map r_id (db_rooms (update_room_status e db roomId st)) = map r_id (db_rooms db)"
  by (simp_all add: update_room_status_def comp_def)

lemma update_room_status_rooms:
  "\<not> e_room_update_error e \<Longrightarrow>
   db_rooms (update_room_status e db roomId st) =
     map (\<lambda>r. if r_id r = roomId then r\<lparr>r_status := st, r_updated_at := e_db_now e\<rparr> else r)
       (db_rooms db)"
  by (simp add: update_room_status_def)

lemma handleCheckOut_done:
  assumes "e_confirm e" "\<not> e_booking_update_error e"
  shows "handleCheckOut e booking db =
    (CheckedOut, update_room_status e
       (db\<lparr>db_bookings :=
             map (\<lambda>b. if b_id b = b_id booking
                       then b\<lparr>b_status := checked_out,
                              b_actual_check_out := Some (e_now e),
                              b_updated_at := e_db_now e\<rparr>
                       else b)
                 (db_bookings db)\<rparr>) (b_room_id booking) cleaning)"
  using assms by (simp add: handleCheckOut_def update_booking_checked_out_def)

lemma handleSubmit_Inl:
  "bookingSchema_parse f = Inl i \<Longrightarrow> handleSubmit e rooms f db = (ZodError i, db)"
  by (simp add: handleSubmit_def)

text \<open>
  With times of day that pass the schema and a later check-out day, the store's check
  on the two timestamps holds, so the insert depends on the references and on the
  total fitting its column.
\<close>

lemma insert_created_row:
  assumes "bookingSchema_parse f = Inr v" and "v_check_in_date v < v_check_out_date v"
  shows "insert_booking e db
           \<lparr>i_guest_id = v_guest_id v, i_room_id = v_room_id v,
            i_check_in_date = Some (datetime_ms (v_check_in_date v) (v_check_in_time v)),
            i_check_out_date = Some (datetime_ms (v_check_out_date v) (v_check_out_time v)),
            i_notes = (if v_notes v = [] then None else Some (v_notes v)),
            i_total_price = calculateTotalPrice rooms (v_room_id v)
                        (Some (date_ms (v_check_in_date v))) (Some (date_ms (v_check_out_date v))),
            i_status = active\<rparr>
         = (if e_insert_error e \<or> v_guest_id v \<notin> set (map g_id (db_guests db))
               \<or> v_room_id v \<notin> set (map r_id (db_rooms db))
               \<or> numeric_10_2 (json_number (calculateTotalPrice rooms (v_room_id v)
                     (Some (date_ms (v_check_in_date v))) (Some (date_ms (v_check_out_date v)))))
                   = None
            then None
            else Some (db\<lparr>db_bookings := db_bookings db @ [created_row e rooms db v]\<rparr>))"
proof -
  from assms(1) have "valid_time (v_check_in_time v)" "valid_time (v_check_out_time v)"
    by (simp_all add: bookingSchema_parse_Inr)
  from datetime_ms_mono [OF this assms(2)]
  show ?thesis by (auto simp: insert_booking_def created_row_def split: option.splits)
qed

text \<open>The decisions of \<^verbatim>\<open>handleSubmit\<close> on a form that passes the schema, in order.\<close>

lemma handleSubmit_Inr:
  assumes "bookingSchema_parse f = Inr v"
  shows "handleSubmit e rooms f db =
    (if date_ms (v_check_in_date v) < e_today e then (CheckInPast, db)
     else if v_check_out_date v \<le> v_check_in_date v then (CheckOutNotAfter, db)
     else if e_select_error e
             \<or> (\<exists>b\<in>set (db_bookings db).
                   blocks b (v_room_id v) (date_ms (v_check_in_date v)) (date_ms (v_check_out_date v)))
          then (RoomReserved, db)
     else if e_insert_error e \<or> v_guest_id v \<notin> set (map g_id (db_guests db))
               \<or> v_room_id v \<notin> set (map r_id (db_rooms db))
               \<or> numeric_10_2 (json_number (calculateTotalPrice rooms (v_room_id v)
                     (Some (date_ms (v_check_in_date v))) (Some (date_ms (v_check_out_date v)))))
                   = None
          then (InsertError, db)
     else (Created,
           update_room_status e (db\<lparr>db_bookings := db_bookings db @ [created_row e rooms db v]\<rparr>)
             (v_room_id v) occupied))"
proof (cases "v_check_in_date v < v_check_out_date v")
  case True
  show ?thesis
    using True insert_created_row [OF assms True, of e db rooms]
    by (simp add: handleSubmit_def assms validateDates_def date_ms_le checkRoomAvailability_blocks
          Let_def)
next
  case False
  then show ?thesis
    by (simp add: handleSubmit_def assms validateDates_def date_ms_le)
qed

lemma handleSubmit_no_write:
  "fst (handleSubmit e rooms f db) \<noteq> Created \<Longrightarrow> snd (handleSubmit e rooms f db) = db"
  by (cases "bookingSchema_parse f")
     (auto simp: handleSubmit_Inl handleSubmit_Inr split: if_splits)

subsection \<open>Availability\<close>

text \<open>
  C4. When the store answers the availability query, \<^verbatim>\<open>checkRoomAvailability\<close>
  returns \<^verbatim>\<open>false\<close> if and only if some booking of that room with status active has
  \<open>check_in_date \<le> checkOut\<close> and \<open>check_out_date \<ge> checkIn\<close>, and \<^verbatim>\<open>true\<close> when there
  is none. Bookings that are cancelled or checked out never count: dropping them from
  the table leaves the answer as it is.
\<close>

theorem checkRoomAvailability_iff:
  assumes "\<not> e_select_error e"
  shows "(checkRoomAvailability e db roomId checkIn checkOut = False)
           = (\<exists>existing\<in>set (db_bookings db).
                b_room_id existing = roomId \<and> b_status existing = active
                \<and> b_check_in_date existing \<le> checkOut \<and> b_check_out_date existing \<ge> checkIn)
         \<and> checkRoomAvailability e
              (db\<lparr>db_bookings := filter (\<lambda>b. b_status b = active) (db_bookings db)\<rparr>)
              roomId checkIn checkOut
           = checkRoomAvailability e db roomId checkIn checkOut"
  using assms by (auto simp: checkRoomAvailability_blocks blocks_def)

text \<open>
  Room 101 booked from 2024-06-05 14:00 to 2024-06-07 12:00: the dates 06-05 to 06-07
  are unavailable, the dates 05-27 to 05-29 are available, and with no booking at all
  the room is available.
\<close>

theorem checkRoomAvailability_iff_witness:
  "\<not> e_select_error env_0
   \<and> checkRoomAvailability env_0 store_1 (r_id room_101) (date_ms 19879) (date_ms 19881) = False
   \<and> checkRoomAvailability env_0 store_1 (r_id room_101) (date_ms 19870) (date_ms 19872) = True
   \<and> checkRoomAvailability env_0 store_0 (r_id room_101) (date_ms 19879) (date_ms 19881) = True"
proof -
  have h: "\<not> e_select_error env_0" by (simp add: env_defs)
  from checkRoomAvailability_iff [OF h, of store_1 "r_id room_101" "date_ms 19879" "date_ms 19881"]
       checkRoomAvailability_iff [OF h, of store_1 "r_id room_101" "date_ms 19870" "date_ms 19872"]
       checkRoomAvailability_iff [OF h, of store_0 "r_id room_101" "date_ms 19879" "date_ms 19881"]
       h
  show ?thesis by (simp add: hotel_defs)
qed

subsection \<open>Check-out\<close>

text \<open>
  C5. When the user confirms the prompt and the store carries out both updates,
  \<^verbatim>\<open>handleCheckOut\<close> on a booking of the table with status active ends with the success
  toast; the booking is still in the table, with status \<open>checked_out\<close> and
  \<open>actual_check_out\<close> the current time of the browser; the rooms are the same rows, and
  the booking's room has status \<open>cleaning\<close>, not \<open>available\<close>.
\<close>

theorem handleCheckOut_effect:
  assumes "e_confirm e" and "\<not> e_booking_update_error e" and "\<not> e_room_update_error e"
    and "booking \<in> set (db_bookings db)" and "b_status booking = active"
  shows "fst (handleCheckOut e booking db) = CheckedOut
    \<and> (\<exists>b\<in>set (db_bookings (snd (handleCheckOut e booking db))). b_id b = b_id booking)
    \<and> (\<forall>b\<in>set (db_bookings (snd (handleCheckOut e booking db))).
          b_id b = b_id booking \<longrightarrow>
            b_status b = checked_out \<and> b_actual_check_out b = Some (e_now e))
    \<and> map r_id (db_rooms (snd (handleCheckOut e booking db))) = map r_id (db_rooms db)
    \<and> (\<forall>r\<in>set (db_rooms (snd (handleCheckOut e booking db))).
          r_id r = b_room_id booking \<longrightarrow> r_status r = cleaning \<and> r_status r \<noteq> available)"
proof -
  let ?db' = "snd (handleCheckOut e booking db)"
  have bs: "db_bookings ?db' =
      map (\<lambda>b. if b_id b = b_id booking
                then b\<lparr>b_status := checked_out, b_actual_check_out := Some (e_now e),
                       b_updated_at := e_db_now e\<rparr>
                else b) (db_bookings db)"
    by (simp add: handleCheckOut_done [OF assms(1,2)])
  have rs: "db_rooms ?db' =
      map (\<lambda>r. if r_id r = b_room_id booking
                then r\<lparr>r_status := cleaning, r_updated_at := e_db_now e\<rparr> else r) (db_rooms db)"
    by (simp add: handleCheckOut_done [OF assms(1,2)] update_room_status_rooms [OF assms(3)])
  have 1: "fst (handleCheckOut e booking db) = CheckedOut"
    by (simp add: handleCheckOut_done [OF assms(1,2)])
  have 2: "\<exists>b\<in>set (db_bookings ?db'). b_id b = b_id booking"
  proof -
    let ?b' = "booking\<lparr>b_status := checked_out, b_actual_check_out := Some (e_now e),
                       b_updated_at := e_db_now e\<rparr>"
    from assms(4) have "?b' \<in> set (db_bookings ?db')"
      unfolding bs by (simp add: image_iff) (rule bexI [of _ booking], simp_all)
    moreover have "b_id ?b' = b_id booking" by simp
    ultimately show ?thesis by blast
  qed
  have 3: "\<forall>b\<in>set (db_bookings ?db'). b_id b = b_id booking \<longrightarrow>
            b_status b = checked_out \<and> b_actual_check_out b = Some (e_now e)"
    unfolding bs by auto
  have 4: "map r_id (db_rooms ?db') = map r_id (db_rooms db)"
    unfolding rs by (simp add: comp_def)
  have 5: "\<forall>r\<in>set (db_rooms ?db'). r_id r = b_room_id booking \<longrightarrow>
            r_status r = cleaning \<and> r_status r \<noteq> available"
    unfolding rs by auto
  from 1 2 3 4 5 show ?thesis by blast
qed

text \<open>Checking out the booking of room 101 in \<open>store_1\<close>.\<close>

theorem handleCheckOut_effect_witness:
  "e_confirm env_0 \<and> \<not> e_booking_update_error env_0 \<and> \<not> e_room_update_error env_0
   \<and> booking_1 \<in> set (db_bookings store_1)
   \<and> b_status booking_1 = active
   \<and> fst (handleCheckOut env_0 booking_1 store_1)
       = CheckedOut
   \<and> map b_status (db_bookings
        (snd (handleCheckOut env_0 booking_1 store_1)))
       = [checked_out]
   \<and> map b_actual_check_out (db_bookings
        (snd (handleCheckOut env_0 booking_1 store_1)))
       = [Some (e_now env_0)]
   \<and> map r_status (db_rooms
        (snd (handleCheckOut env_0 booking_1 store_1)))
       = [cleaning]"
proof -
  have h: "e_confirm env_0" "\<not> e_booking_update_error env_0" "\<not> e_room_update_error env_0"
    "booking_1 \<in> set (db_bookings store_1)"
    "b_status booking_1 = active"
    by (simp_all add: env_defs store_1_def booking_1_def booking_of_def)
  from handleCheckOut_effect [OF h] h
  show ?thesis
    by (simp add: handleCheckOut_def update_booking_checked_out_def update_room_status_def
          store_1_def env_defs booking_1_def booking_of_def room_101_def)
qed

subsection \<open>Concrete runs in the small hotel\<close>

lemma parse_form_of:
  "valid_time tin \<Longrightarrow> valid_time tout \<Longrightarrow> length notes \<le> 1000 \<Longrightarrow>
   bookingSchema_parse (form_of ci tin co tout notes) = Inr (validated_of ci tin co tout notes)"
  by (simp add: bookingSchema_parse_def form_of_def validated_of_def is_uuid_def hex_digit_def
        guest_G1_def room_101_def)

lemma valid_time_examples: "valid_time ''14:00''" "valid_time ''12:00''" "valid_time ''23:00''"
  by (simp_all add: valid_time_def)

lemma blocks_store_1:
  "blocks booking_1 (r_id room_101) (date_ms a) (date_ms b) \<longleftrightarrow> 19879 < b \<and> a \<le> 19881"
  by (simp add: blocks_def booking_1_def booking_of_def datetime_ms_def time_ms_def digit_val_def date_ms_def
        day_ms_def) presburger

text \<open>In the small hotel it is 2024-06-01, in Brasilia as on UTC.\<close>

lemma today_env_0:
  "local_date env_0 = 19875" "e_today env_0 = date_ms 19875"
  "local_date env_brasilia = 19875" "e_today env_brasilia = date_ms 19875 + 10800000"
  by (simp_all add: env_defs date_ms_def day_ms_def)

text \<open>Two nights in room 101, as the store holds their price.\<close>

lemma total_101:
  "numeric_10_2 (json_number (calculateTotalPrice [room_101] (r_id room_101)
      (Some (date_ms a)) (Some (date_ms (a + 2))))) = Some 400"
  using price_101 [of "a + 2" a] by (simp add: total_400)

lemma run_store_0:
  "handleSubmit env_0 [room_101] (form_of 19875 ''14:00'' 19877 ''12:00'' '''') store_0 =
     (Created,
      \<lparr>db_guests = [guest_G1],
       db_rooms = [room_101\<lparr>r_status := occupied, r_updated_at := e_db_now env_0\<rparr>],
       db_bookings = [booking_of 1 19875 ''14:00'' 19877 ''12:00'' 400]\<rparr>)"
  using total_101 [of 19875]
  by (simp add: handleSubmit_Inr [OF parse_form_of] valid_time_examples created_row_def
        update_room_status_def blocks_def new_booking_id_def validated_of_def today_env_0)
     (simp add: store_0_def env_0_def booking_of_def guest_G1_def room_101_def)

lemma run_first:
  "handleSubmit env_0 [room_101] (form_of 19879 ''14:00'' 19881 ''12:00'' '''') store_0
     = (Created, store_1)"
  using total_101 [of 19879]
  by (simp add: handleSubmit_Inr [OF parse_form_of] valid_time_examples created_row_def
        update_room_status_def blocks_def new_booking_id_def validated_of_def today_env_0
        date_ms_less)
     (simp add: store_0_def store_1_def env_0_def booking_1_def booking_of_def
        guest_G1_def room_101_def)

lemma run_second:
  "handleSubmit env_0 [room_101] (form_of 19877 ''14:00'' 19879 ''23:00'' '''') store_1
     = (Created, store_2)"
  using total_101 [of 19877]
  by (simp add: handleSubmit_Inr [OF parse_form_of] valid_time_examples created_row_def
        update_room_status_def new_booking_id_def validated_of_def today_env_0 date_ms_less)
     (simp add: store_1_def store_2_def env_0_def booking_1_def booking_2_def
        booking_of_def blocks_def guest_G1_def room_101_def datetime_ms_def time_ms_def
        digit_val_def date_ms_def day_ms_def)

subsection \<open>Creating a booking\<close>

text \<open>
  C2, as the page has it. The page and the store check more than the references, the
  dates and the availability. The form must pass the schema first (well-formed ids,
  times of day \<^verbatim>\<open>HH:MM\<close>, notes of at most 1000 characters): a form with notes of 1001
  characters is refused. And the total must fit the column \<^verbatim>\<open>DECIMAL(10,2)\<close>: a stay
  in room 101 from 2024-06-01 to 9999-12-31 (day 2932896) costs 582604200.00, and the
  store refuses the row. In both runs guest and room exist, the check-in is today,
  the check-out is later, the room has no booking and the store works.
\<close>

theorem handleSubmit_refuses:
  "g_id guest_G1 \<in> set (map g_id (db_guests store_0))
   \<and> r_id room_101 \<in> set (map r_id (db_rooms store_0))
   \<and> local_date env_0 = 19875 \<and> (19875 :: int) < 19877 \<and> (19875 :: int) < 2932896
   \<and> db_bookings store_0 = []
   \<and> \<not> e_select_error env_0 \<and> \<not> e_insert_error env_0 \<and> \<not> e_room_update_error env_0
   \<and> handleSubmit env_0 [room_101]
        (form_of 19875 ''14:00'' 19877 ''12:00'' (replicate 1001 CHR ''x'')) store_0
       = (ZodError NotesTooLong, store_0)
   \<and> calculateTotalPrice [room_101] (r_id room_101) (Some (date_ms 19875)) (Some (date_ms 2932896))
       = 582604200
   \<and> handleSubmit env_0 [room_101] (form_of 19875 ''14:00'' 2932896 ''12:00'' '''') store_0
       = (InsertError, store_0)"
proof -
  have a: "bookingSchema_parse (form_of 19875 ''14:00'' 19877 ''12:00'' (replicate 1001 CHR ''x''))
      = Inl NotesTooLong"
    by (simp add: bookingSchema_parse_def form_of_def is_uuid_def hex_digit_def
        guest_G1_def room_101_def valid_time_def)
  have p: "calculateTotalPrice [room_101] (r_id room_101) (Some (date_ms 19875))
      (Some (date_ms 2932896)) = 582604200"
    using price_101 [of 2932896 19875] by simp
  have b: "handleSubmit env_0 [room_101] (form_of 19875 ''14:00'' 2932896 ''12:00'' '''') store_0
       = (InsertError, store_0)"
    by (simp add: handleSubmit_Inr [OF parse_form_of] valid_time_examples validated_of_def
          today_env_0 p total_582604200)
       (simp add: store_0_def env_0_def)
  from p b show ?thesis
    by (simp add: handleSubmit_Inl [OF a] today_env_0)
       (simp add: store_0_def env_0_def)
qed

text \<open>
  The date validation compares 00:00 UTC of the check-in date with the browser's
  local midnight. The two agree on the day when the offset of the zone is less than a
  day, except on the current date itself: a check-in today passes east of UTC and on
  it, and is refused west of it.
\<close>

lemma e_today_le:
  assumes "\<bar>e_utc_offset e\<bar> < day_ms"
  shows "e_today e \<le> date_ms d
           \<longleftrightarrow> local_date e < d \<or> (local_date e = d \<and> 0 \<le> e_utc_offset e)"
proof -
  have eq: "e_today e \<le> date_ms d \<longleftrightarrow> (local_date e - d) * day_ms \<le> e_utc_offset e"
    by (simp add: e_today_def date_ms_def algebra_simps)
  consider "local_date e < d" | "local_date e = d" | "d < local_date e" by linarith
  then show ?thesis
  proof cases
    case 1
    then have "local_date e - d \<le> - 1" by simp
    then have "(local_date e - d) * day_ms \<le> - 1 * day_ms"
      using day_ms_pos by (intro mult_right_mono) simp_all
    with assms 1 show ?thesis by (simp add: eq)
  next
    case 2
    then show ?thesis by (simp add: eq)
  next
    case 3
    then have "1 \<le> local_date e - d" by simp
    then have "1 * day_ms \<le> (local_date e - d) * day_ms"
      using day_ms_pos by (intro mult_right_mono) simp_all
    with assms 3 show ?thesis by (simp add: eq)
  qed
qed

text \<open>A booking that blocks an interval blocks every interval around it.\<close>

lemma blocks_wider:
  "blocks b roomId lo' hi' \<Longrightarrow> lo \<le> lo' \<Longrightarrow> hi' \<le> hi \<Longrightarrow> blocks b roomId lo hi"
  by (auto simp: blocks_def)

text \<open>
  Two refusals that the claim does not foresee and the amended statement leaves
  aside, both of the page comparing dates where the request has instants. In Brasilia
  at 07:00 on 2024-06-01, a check-in on 2024-06-01 is refused as being in the past.
  And with room 101 booked until 2024-06-07 12:00, a stay from 2024-06-07 14:00 to
  2024-06-09 12:00, which no booking blocks, is refused as a conflict: the checker is
  asked about 2024-06-07 00:00 onwards.
\<close>

lemma check_in_today_refused:
  "local_date env_brasilia = 19875
   \<and> handleSubmit env_brasilia [room_101] (form_of 19875 ''14:00'' 19877 ''12:00'' '''') store_0
       = (CheckInPast, store_0)"
  by (simp add: handleSubmit_Inr [OF parse_form_of] valid_time_examples validated_of_def
        today_env_0)

lemma turnover_refused:
  "\<not> (\<exists>existing\<in>set (db_bookings store_1).
         blocks existing (r_id room_101) (datetime_ms 19881 ''14:00'') (datetime_ms 19883 ''12:00''))
   \<and> handleSubmit env_0 [room_101] (form_of 19881 ''14:00'' 19883 ''12:00'' '''') store_1
       = (RoomReserved, store_1)"
proof -
  have a: "\<not> (\<exists>existing\<in>set (db_bookings store_1).
         blocks existing (r_id room_101) (datetime_ms 19881 ''14:00'') (datetime_ms 19883 ''12:00''))"
    by (simp add: store_1_def blocks_def booking_1_def booking_of_def datetime_ms_def time_ms_def
          digit_val_def date_ms_def day_ms_def)
  have b: "\<exists>existing\<in>set (db_bookings store_1).
         blocks existing (r_id room_101) (date_ms 19881) (date_ms 19883)"
    by (simp add: store_1_def blocks_store_1)
  have "handleSubmit env_0 [room_101] (form_of 19881 ''14:00'' 19883 ''12:00'' '''') store_1
       = (RoomReserved, store_1)"
    using b
    by (simp add: handleSubmit_Inr [OF parse_form_of] valid_time_examples validated_of_def
          today_env_0 date_ms_less)
  with a show ?thesis by simp
qed

text \<open>
  C2, amended. Suppose that the form passes the schema; that the referenced guest and
  room exist; that the check-in date is after the current date of the browser's
  calendar, or is the current date in a zone on or east of UTC; that the check-out
  date is after the check-in date; that no active booking of the room blocks the
  interval from 00:00 of the check-in date to the check-out date and time (which
  holds the interval the page passes to the checker and the interval that is stored);
  that the total of \<^verbatim>\<open>calculateTotalPrice\<close> fits the column; and that the store carries
  out the query, the insert and the room update. Then \<^verbatim>\<open>handleSubmit\<close> succeeds:
  exactly one row is appended to the bookings, for that guest and room, from check-in
  date and time to check-out date and time, with status active, no actual check-out
  and that total as the column rounds it; the new row overlaps no active booking of
  the room that was there; and the room has status occupied.
\<close>

theorem handleSubmit_succeeds:
  assumes "bookingSchema_parse f = Inr v"
    and "f_guest_id f \<in> set (map g_id (db_guests db))"
    and "f_room_id f \<in> set (map r_id (db_rooms db))"
    and "\<bar>e_utc_offset e\<bar> < day_ms"
    and "local_date e < v_check_in_date v
           \<or> (local_date e = v_check_in_date v \<and> 0 \<le> e_utc_offset e)"
    and "v_check_in_date v < v_check_out_date v"
    and "\<not> (\<exists>existing\<in>set (db_bookings db).
              blocks existing (f_room_id f) (date_ms (v_check_in_date v))
                (datetime_ms (v_check_out_date v) (f_check_out_time f)))"
    and "numeric_10_2 (json_number (calculateTotalPrice rooms (f_room_id f)
            (Some (date_ms (v_check_in_date v))) (Some (date_ms (v_check_out_date v)))))
          = Some totalPrice"
    and "\<not> e_select_error e" and "\<not> e_insert_error e" and "\<not> e_room_update_error e"
  shows "fst (handleSubmit e rooms f db) = Created
    \<and> (\<exists>new. db_bookings (snd (handleSubmit e rooms f db)) = db_bookings db @ [new]
          \<and> b_guest_id new = f_guest_id f \<and> b_room_id new = f_room_id f
          \<and> b_check_in_date new = datetime_ms (v_check_in_date v) (f_check_in_time f)
          \<and> b_check_out_date new = datetime_ms (v_check_out_date v) (f_check_out_time f)
          \<and> b_status new = active \<and> b_actual_check_out new = None
          \<and> b_total_price new = totalPrice
          \<and> \<not> (\<exists>existing\<in>set (db_bookings db).
                  b_room_id existing = b_room_id new \<and> b_status existing = active
                  \<and> overlap existing new))
    \<and> (\<exists>r\<in>set (db_rooms (snd (handleSubmit e rooms f db))). r_id r = f_room_id f)
    \<and> (\<forall>r\<in>set (db_rooms (snd (handleSubmit e rooms f db))).
          r_id r = f_room_id f \<longrightarrow> r_status r = occupied)"
proof -
  from assms(1) have v: "v_guest_id v = f_guest_id f" "v_room_id v = f_room_id f"
    "v_check_in_time v = f_check_in_time f" "v_check_out_time v = f_check_out_time f"
    and t: "valid_time (f_check_in_time f)" "valid_time (f_check_out_time f)"
    by (simp_all add: bookingSchema_parse_Inr)
  from e_today_le [OF assms(4), of "v_check_in_date v"] assms(5)
  have today: "\<not> date_ms (v_check_in_date v) < e_today e" by linarith
  from valid_time_bounds [OF t(1)]
  have lo: "date_ms (v_check_in_date v) \<le> datetime_ms (v_check_in_date v) (f_check_in_time f)"
    by (simp add: datetime_ms_def)
  from valid_time_bounds [OF t(2)]
  have hi: "date_ms (v_check_out_date v) \<le> datetime_ms (v_check_out_date v) (f_check_out_time f)"
    by (simp add: datetime_ms_def)
  have free: "\<not> (\<exists>b\<in>set (db_bookings db).
      blocks b (f_room_id f) (date_ms (v_check_in_date v)) (date_ms (v_check_out_date v)))"
    using assms(7) hi by (blast intro: blocks_wider)
  have run: "handleSubmit e rooms f db =
      (Created,
       update_room_status e (db\<lparr>db_bookings := db_bookings db @ [created_row e rooms db v]\<rparr>)
         (v_room_id v) occupied)"
    using assms(2,3,6,8-10) today free by (simp add: handleSubmit_Inr [OF assms(1)] v)
  have 1: "fst (handleSubmit e rooms f db) = Created"
    by (simp add: run)
  have apart: "\<not> (\<exists>existing\<in>set (db_bookings db).
      b_room_id existing = b_room_id (created_row e rooms db v) \<and> b_status existing = active
      \<and> overlap existing (created_row e rooms db v))"
  proof
    assume "\<exists>existing\<in>set (db_bookings db).
      b_room_id existing = b_room_id (created_row e rooms db v) \<and> b_status existing = active
      \<and> overlap existing (created_row e rooms db v)"
    then obtain existing where x: "existing \<in> set (db_bookings db)"
      and "blocks existing (f_room_id f) (datetime_ms (v_check_in_date v) (f_check_in_time f))
             (datetime_ms (v_check_out_date v) (f_check_out_time f))"
      by (auto simp: overlap_def blocks_def created_row_def v)
    from this(2) lo
    have "blocks existing (f_room_id f) (date_ms (v_check_in_date v))
            (datetime_ms (v_check_out_date v) (f_check_out_time f))"
      by (rule blocks_wider) simp
    with x assms(7) show False by blast
  qed
  have 2: "\<exists>new. db_bookings (snd (handleSubmit e rooms f db)) = db_bookings db @ [new]
          \<and> b_guest_id new = f_guest_id f \<and> b_room_id new = f_room_id f
          \<and> b_check_in_date new = datetime_ms (v_check_in_date v) (f_check_in_time f)
          \<and> b_check_out_date new = datetime_ms (v_check_out_date v) (f_check_out_time f)
          \<and> b_status new = active \<and> b_actual_check_out new = None
          \<and> b_total_price new = totalPrice
          \<and> \<not> (\<exists>existing\<in>set (db_bookings db).
                  b_room_id existing = b_room_id new \<and> b_status existing = active
                  \<and> overlap existing new)"
    using apart assms(8)
    by (intro exI [of _ "created_row e rooms db v"] conjI) (simp_all add: run created_row_def v)
  have ids: "map r_id (db_rooms (snd (handleSubmit e rooms f db))) = map r_id (db_rooms db)"
    by (simp add: run)
  have 3: "\<exists>r\<in>set (db_rooms (snd (handleSubmit e rooms f db))). r_id r = f_room_id f"
  proof -
    from assms(3) ids
    have "f_room_id f \<in> set (map r_id (db_rooms (snd (handleSubmit e rooms f db))))"
      by simp
    then show ?thesis by auto
  qed
  have 4: "\<forall>r\<in>set (db_rooms (snd (handleSubmit e rooms f db))).
          r_id r = f_room_id f \<longrightarrow> r_status r = occupied"
    by (auto simp: run update_room_status_rooms [OF assms(11)] v)
  from 1 2 3 4 show ?thesis by blast
qed

text \<open>
  The scenario of the specification: room 101, 2024-06-01 to 2024-06-03, total 400.00,
  room occupied.
\<close>

theorem handleSubmit_succeeds_witness:
  "bookingSchema_parse (form_of 19875 ''14:00'' 19877 ''12:00'' '''')
     = Inr (validated_of 19875 ''14:00'' 19877 ''12:00'' '''')
   \<and> f_guest_id (form_of 19875 ''14:00'' 19877 ''12:00'' '''') \<in> set (map g_id (db_guests store_0))
   \<and> f_room_id (form_of 19875 ''14:00'' 19877 ''12:00'' '''') \<in> set (map r_id (db_rooms store_0))
   \<and> \<bar>e_utc_offset env_0\<bar> < day_ms
   \<and> local_date env_0 = 19875 \<and> 0 \<le> e_utc_offset env_0 \<and> (19875 :: int) < 19877
   \<and> db_bookings store_0 = []
   \<and> numeric_10_2 (json_number (calculateTotalPrice [room_101] (r_id room_101)
         (Some (date_ms 19875)) (Some (date_ms 19877)))) = Some 400
   \<and> \<not> e_select_error env_0 \<and> \<not> e_insert_error env_0 \<and> \<not> e_room_update_error env_0
   \<and> fst (handleSubmit env_0 [room_101] (form_of 19875 ''14:00'' 19877 ''12:00'' '''') store_0)
       = Created
   \<and> db_bookings (snd (handleSubmit env_0 [room_101] (form_of 19875 ''14:00'' 19877 ''12:00'' '''')
        store_0)) = [booking_of 1 19875 ''14:00'' 19877 ''12:00'' 400]
   \<and> map r_status (db_rooms (snd (handleSubmit env_0 [room_101]
        (form_of 19875 ''14:00'' 19877 ''12:00'' '''') store_0))) = [occupied]"
proof -
  let ?f = "form_of 19875 ''14:00'' 19877 ''12:00'' ''''"
  let ?v = "validated_of 19875 ''14:00'' 19877 ''12:00'' ''''"
  have h1: "bookingSchema_parse ?f = Inr ?v"
    by (simp add: parse_form_of valid_time_examples)
  have h2: "f_guest_id ?f \<in> set (map g_id (db_guests store_0))"
    and h3: "f_room_id ?f \<in> set (map r_id (db_rooms store_0))"
    by (simp_all add: form_of_def store_0_def)
  have h4: "\<bar>e_utc_offset env_0\<bar> < day_ms"
    by (simp add: env_0_def day_ms_def)
  have h5: "local_date env_0 < v_check_in_date ?v
           \<or> (local_date env_0 = v_check_in_date ?v \<and> 0 \<le> e_utc_offset env_0)"
    by (simp add: today_env_0 validated_of_def) (simp add: env_0_def)
  have h6: "v_check_in_date ?v < v_check_out_date ?v"
    by (simp add: validated_of_def)
  have h7: "\<not> (\<exists>existing\<in>set (db_bookings store_0).
          blocks existing (f_room_id ?f) (date_ms (v_check_in_date ?v))
            (datetime_ms (v_check_out_date ?v) (f_check_out_time ?f)))"
    by (simp add: store_0_def)
  have h8: "numeric_10_2 (json_number (calculateTotalPrice [room_101] (f_room_id ?f)
            (Some (date_ms (v_check_in_date ?v))) (Some (date_ms (v_check_out_date ?v)))))
          = Some 400"
    using total_101 [of 19875] by (simp add: form_of_def validated_of_def)
  have h9: "\<not> e_select_error env_0" and h10: "\<not> e_insert_error env_0"
    and h11: "\<not> e_room_update_error env_0"
    by (simp_all add: env_0_def)
  from handleSubmit_succeeds [OF h1 h2 h3 h4 h5 h6 h7 h8 h9 h10 h11]
    h1 h2 h3 h4 h8 h9 h10 h11
  show ?thesis
    by (simp add: run_store_0 today_env_0)
       (simp add: validated_of_def form_of_def room_101_def store_0_def env_0_def)
qed

subsection \<open>A request that conflicts with a booking\<close>

text \<open>
  When an active booking of the room blocks the interval from 00:00 of the check-in
  date to 00:00 of the check-out date, the interval that the page passes to the
  checker, \<^verbatim>\<open>handleSubmit\<close> does not succeed and writes nothing, and on a request that
  passes the schema and the date validation its toast is the one of the conflict.
\<close>

lemma handleSubmit_blocked_dates:
  assumes "f_check_in_date f = Some ci" and "f_check_out_date f = Some co"
    and "\<exists>existing\<in>set (db_bookings db). blocks existing (f_room_id f) (date_ms ci) (date_ms co)"
  shows "fst (handleSubmit e rooms f db) \<noteq> Created
    \<and> snd (handleSubmit e rooms f db) = db
    \<and> ((\<exists>v. bookingSchema_parse f = Inr v) \<and> e_today e \<le> date_ms ci \<and> ci < co
         \<longrightarrow> fst (handleSubmit e rooms f db) = RoomReserved)"
proof (cases "bookingSchema_parse f")
  case (Inl i)
  then show ?thesis by (simp add: handleSubmit_Inl)
next
  case (Inr v)
  with assms(1,2) have d: "v_check_in_date v = ci" "v_check_out_date v = co"
    and r: "v_room_id v = f_room_id f"
    by (simp_all add: bookingSchema_parse_Inr)
  from assms(3) show ?thesis
    by (simp add: handleSubmit_Inr [OF Inr] d r)
qed

text \<open>
  C3 does not hold of the page. Room 101 has the active booking from 2024-06-05 14:00
  to 2024-06-07 12:00. A request for the same room from 2024-06-03 14:00 to 2024-06-05
  23:00 passes the schema and the date validation, and the booking blocks the
  requested interval under the checker's test: it begins at 14:00 of the day on which
  the request ends at 23:00. The page asks the checker about the dates without their
  times, so the checker compares 06-05 14:00 with 06-05 00:00 and finds the room free;
  \<^verbatim>\<open>handleSubmit\<close> ends with the success toast, not with the conflict, and the store
  holds a second booking.
\<close>

theorem conflict_missed:
  "booking_1 \<in> set (db_bookings store_1)
   \<and> blocks booking_1 (r_id room_101) (datetime_ms 19877 ''14:00'') (datetime_ms 19879 ''23:00'')
   \<and> bookingSchema_parse (form_of 19877 ''14:00'' 19879 ''23:00'' '''')
       = Inr (validated_of 19877 ''14:00'' 19879 ''23:00'' '''')
   \<and> local_date env_0 = 19875 \<and> datetime_ms 19877 ''14:00'' < datetime_ms 19879 ''23:00''
   \<and> handleSubmit env_0 [room_101] (form_of 19877 ''14:00'' 19879 ''23:00'' '''') store_1
       = (Created, store_2)
   \<and> Created \<noteq> RoomReserved
   \<and> db_bookings store_2 = db_bookings store_1 @ [booking_2]
   \<and> db_bookings store_2 \<noteq> db_bookings store_1"
  by (simp add: run_second parse_form_of valid_time_examples today_env_0)
     (simp add: store_1_def store_2_def blocks_def booking_1_def booking_of_def datetime_ms_def
        time_ms_def digit_val_def date_ms_def day_ms_def room_101_def)

subsection \<open>A failing availability query\<close>

text \<open>
  C7, as the page has it. \<^verbatim>\<open>checkRoomAvailability\<close> answers \<^verbatim>\<open>false\<close> on an error of the
  store, the value it answers for a room that is taken, and \<^verbatim>\<open>handleSubmit\<close> shows the
  same toast in both cases: here a failing query on the free room 101 against a
  working query on the booked room 101.
\<close>

theorem availability_error_conflated:
  "\<not> (\<exists>existing\<in>set (db_bookings store_0).
        blocks existing (r_id room_101) (date_ms 19879) (date_ms 19881))
   \<and> (\<exists>existing\<in>set (db_bookings store_1).
        blocks existing (r_id room_101) (date_ms 19879) (date_ms 19881))
   \<and> checkRoomAvailability env_select_error store_0 (r_id room_101)
        (date_ms 19879) (date_ms 19881)
     = checkRoomAvailability env_0 store_1 (r_id room_101) (date_ms 19879) (date_ms 19881)
   \<and> fst (handleSubmit env_select_error [room_101]
        (form_of 19879 ''14:00'' 19881 ''12:00'' '''') store_0)
     = fst (handleSubmit env_0 [room_101] (form_of 19879 ''14:00'' 19881 ''12:00'' '''') store_1)"
proof -
  have a: "\<not> (\<exists>existing\<in>set (db_bookings store_0).
        blocks existing (r_id room_101) (date_ms 19879) (date_ms 19881))"
    by (simp add: store_0_def)
  have b: "\<exists>existing\<in>set (db_bookings store_1).
        blocks existing (r_id room_101) (date_ms 19879) (date_ms 19881)"
    by (simp add: store_1_def blocks_store_1)
  have c: "fst (handleSubmit env_select_error [room_101]
        (form_of 19879 ''14:00'' 19881 ''12:00'' '''') store_0) = RoomReserved"
    by (simp add: handleSubmit_Inr [OF parse_form_of] valid_time_examples)
       (simp add: validated_of_def env_defs date_ms_def day_ms_def)
  have d: "fst (handleSubmit env_0 [room_101] (form_of 19879 ''14:00'' 19881 ''12:00'' '''') store_1)
       = RoomReserved"
    using b
    by (simp add: handleSubmit_Inr [OF parse_form_of] valid_time_examples)
       (simp add: validated_of_def env_defs date_ms_def day_ms_def)
  from a b c d show ?thesis
    by (simp add: checkRoomAvailability_blocks env_select_error_def)
qed

text \<open>
  C7, amended. When the availability query fails, \<^verbatim>\<open>checkRoomAvailability\<close> returns
  \<^verbatim>\<open>false\<close>, as it does for a room that is taken (the error is logged only), and
  \<^verbatim>\<open>handleSubmit\<close> never succeeds and leaves the store unchanged; on a form that passes
  the schema and the date validation its toast is \<open>RoomReserved\<close>.
\<close>

theorem availability_error_aborts:
  assumes "e_select_error e"
  shows "checkRoomAvailability e db roomId checkIn checkOut = False
    \<and> fst (handleSubmit e rooms f db) \<noteq> Created
    \<and> snd (handleSubmit e rooms f db) = db
    \<and> (bookingSchema_parse f = Inr v \<and> e_today e \<le> date_ms (v_check_in_date v)
         \<and> v_check_in_date v < v_check_out_date v
         \<longrightarrow> fst (handleSubmit e rooms f db) = RoomReserved)"
proof -
  have 1: "checkRoomAvailability e db roomId checkIn checkOut = False"
    using assms by (simp add: checkRoomAvailability_blocks)
  have 2: "fst (handleSubmit e rooms f db) \<noteq> Created"
    using assms
    by (cases "bookingSchema_parse f") (simp_all add: handleSubmit_Inl handleSubmit_Inr)
  from handleSubmit_no_write [OF 2] have 3: "snd (handleSubmit e rooms f db) = db" .
  have 4: "fst (handleSubmit e rooms f db) = RoomReserved"
    if "bookingSchema_parse f = Inr v" "e_today e \<le> date_ms (v_check_in_date v)"
       "v_check_in_date v < v_check_out_date v"
    using that assms by (simp add: handleSubmit_Inr)
  from 1 2 3 4 show ?thesis by blast
qed


text \<open>A failing query on the free room 101.\<close>

theorem availability_error_aborts_witness:
  "e_select_error env_select_error
   \<and> bookingSchema_parse (form_of 19875 ''14:00'' 19877 ''12:00'' '''')
       = Inr (validated_of 19875 ''14:00'' 19877 ''12:00'' '''')
   \<and> e_today env_select_error \<le> date_ms 19875 \<and> (19875 :: int) < 19877
   \<and> checkRoomAvailability env_select_error store_0 (r_id room_101)
        (date_ms 19875) (date_ms 19877) = False
   \<and> handleSubmit env_select_error [room_101]
        (form_of 19875 ''14:00'' 19877 ''12:00'' '''') store_0 = (RoomReserved, store_0)"
proof -
  let ?e = "env_select_error"
  let ?f = "form_of 19875 ''14:00'' 19877 ''12:00'' ''''"
  let ?v = "validated_of 19875 ''14:00'' 19877 ''12:00'' ''''"
  have h: "e_select_error ?e" by (simp add: env_select_error_def)
  have p: "bookingSchema_parse ?f = Inr ?v"
    by (simp add: parse_form_of valid_time_examples)
  have t: "e_today ?e \<le> date_ms 19875"
    by (simp add: env_defs date_ms_def day_ms_def)
  have v: "v_check_in_date ?v = 19875" "v_check_out_date ?v = 19877"
    by (simp_all add: validated_of_def)
  from availability_error_aborts [OF h, of store_0 "r_id room_101" "date_ms 19875" "date_ms 19877"
         "[room_101]" ?f ?v] h p t v
  show ?thesis by (simp add: prod_eq_iff)
qed

subsection \<open>More on the handlers\<close>

text \<open>A run of \<^verbatim>\<open>handleSubmit\<close> that ends with the success toast.\<close>

lemma handleSubmit_Created_run:
  assumes "fst (handleSubmit e rooms f db) = Created"
  obtains v where "bookingSchema_parse f = Inr v"
    and "handleSubmit e rooms f db =
      (Created,
       update_room_status e (db\<lparr>db_bookings := db_bookings db @ [created_row e rooms db v]\<rparr>)
         (v_room_id v) occupied)"
    and "e_today e \<le> date_ms (v_check_in_date v)"
    and "v_check_in_date v < v_check_out_date v"
    and "numeric_10_2 (json_number (calculateTotalPrice rooms (v_room_id v)
            (Some (date_ms (v_check_in_date v))) (Some (date_ms (v_check_out_date v)))))
          \<noteq> None"
proof (cases "bookingSchema_parse f")
  case (Inl i)
  with assms show ?thesis by (simp add: handleSubmit_Inl)
next
  case (Inr v)
  from assms have "handleSubmit e rooms f db =
      (Created,
       update_room_status e (db\<lparr>db_bookings := db_bookings db @ [created_row e rooms db v]\<rparr>)
         (v_room_id v) occupied)"
    and "e_today e \<le> date_ms (v_check_in_date v)"
    and "v_check_in_date v < v_check_out_date v"
    and "numeric_10_2 (json_number (calculateTotalPrice rooms (v_room_id v)
            (Some (date_ms (v_check_in_date v))) (Some (date_ms (v_check_out_date v)))))
          \<noteq> None"
    by (simp_all add: handleSubmit_Inr [OF Inr] split: if_splits)
  with Inr that show ?thesis by blast
qed

lemma update_room_status_rel:
  "list_all2 (\<lambda>r r'. (r_id r \<noteq> roomId \<longrightarrow> r' = r)
                     \<and> r'\<lparr>r_status := r_status r, r_updated_at := r_updated_at r\<rparr> = r)
     (db_rooms db) (db_rooms (update_room_status e db roomId st))"
  by (simp add: update_room_status_def list_all2_map2 list_all2_same)

text \<open>No update of a booking leaves an actual check-out on an active booking.\<close>

lemma update_booking_inv:
  assumes "\<forall>b\<in>set bs. b_status b = active \<longrightarrow> b_actual_check_out b = None"
  shows "\<forall>b\<in>set (map (\<lambda>b. if b_id b = k
                       then b\<lparr>b_status := checked_out, b_actual_check_out := Some t,
                              b_updated_at := u\<rparr>
                       else b) bs). b_status b = active \<longrightarrow> b_actual_check_out b = None"
proof
  fix b
  assume "b \<in> set (map (\<lambda>b. if b_id b = k
                       then b\<lparr>b_status := checked_out, b_actual_check_out := Some t,
                              b_updated_at := u\<rparr>
                       else b) bs)"
  then obtain x where x: "x \<in> set bs"
    and b: "b = (if b_id x = k
                 then x\<lparr>b_status := checked_out, b_actual_check_out := Some t, b_updated_at := u\<rparr>
                 else x)"
    by auto
  show "b_status b = active \<longrightarrow> b_actual_check_out b = None"
  proof (cases "b_id x = k")
    case True
    with b show ?thesis by simp
  next
    case False
    with b x assms show ?thesis by simp
  qed
qed

lemma handleCheckOut_inv:
  assumes "\<forall>b\<in>set (db_bookings db). b_status b = active \<longrightarrow> b_actual_check_out b = None"
  shows "\<forall>b\<in>set (db_bookings (snd (handleCheckOut e booking db))).
           b_status b = active \<longrightarrow> b_actual_check_out b = None"
proof (cases "e_confirm e \<and> \<not> e_booking_update_error e")
  case True
  then have "db_bookings (snd (handleCheckOut e booking db)) =
      map (\<lambda>b. if b_id b = b_id booking
                then b\<lparr>b_status := checked_out, b_actual_check_out := Some (e_now e),
                       b_updated_at := e_db_now e\<rparr>
                else b) (db_bookings db)"
    by (simp add: handleCheckOut_done)
  with update_booking_inv [OF assms, where k = "b_id booking" and t = "e_now e" and u = "e_db_now e"]
  show ?thesis by (simp only:)
next
  case False
  then have "snd (handleCheckOut e booking db) = db"
    by (auto simp: handleCheckOut_def update_booking_checked_out_def)
  with assms show ?thesis by (simp only:)
qed

lemma handleSubmit_inv:
  assumes "\<forall>b\<in>set (db_bookings db). b_status b = active \<longrightarrow> b_actual_check_out b = None"
  shows "\<forall>b\<in>set (db_bookings (snd (handleSubmit e rooms f db))).
           b_status b = active \<longrightarrow> b_actual_check_out b = None"
proof (cases "fst (handleSubmit e rooms f db) = Created")
  case True
  then obtain v where "handleSubmit e rooms f db =
      (Created,
       update_room_status e (db\<lparr>db_bookings := db_bookings db @ [created_row e rooms db v]\<rparr>)
         (v_room_id v) occupied)"
    by (rule handleSubmit_Created_run)
  then have "db_bookings (snd (handleSubmit e rooms f db))
      = db_bookings db @ [created_row e rooms db v]"
    by simp
  moreover have "b_actual_check_out (created_row e rooms db v) = None"
    by (simp add: created_row_def)
  ultimately show ?thesis using assms by auto
next
  case False
  from handleSubmit_no_write [OF this] assms show ?thesis by (simp only:)
qed

lemma insert_booking_Some:
  assumes "insert_booking e db p = Some db'"
  obtains ci co new where "i_check_in_date p = Some ci" and "i_check_out_date p = Some co"
    and "ci < co" and "db' = db\<lparr>db_bookings := db_bookings db @ [new]\<rparr>"
    and "numeric_10_2 (json_number (i_total_price p)) = Some (b_total_price new)"
proof -
  from assms obtain ci co t where ci: "i_check_in_date p = Some ci"
    and co: "i_check_out_date p = Some co"
    and t: "numeric_10_2 (json_number (i_total_price p)) = Some t"
    by (auto simp: insert_booking_def split: if_splits option.splits)
  let ?new = "\<lparr>b_id = new_booking_id db, b_guest_id = i_guest_id p, b_room_id = i_room_id p,
      b_check_in_date = ci, b_check_out_date = co, b_actual_check_out = None,
      b_total_price = t, b_status = i_status p, b_notes = i_notes p,
      b_created_at = e_db_now e, b_updated_at = e_db_now e\<rparr>"
  from assms have "ci < co" and "db' = db\<lparr>db_bookings := db_bookings db @ [?new]\<rparr>"
    by (simp_all add: insert_booking_def ci co t split: if_splits)
  moreover from t have "numeric_10_2 (json_number (i_total_price p)) = Some (b_total_price ?new)"
    by simp
  ultimately show ?thesis using ci co by (rule that [rotated 2])
qed

text \<open>Runs in the small hotel.\<close>

lemma first_checkout:
  "handleCheckOut env_0 booking_1 store_1
   = (CheckedOut,
      \<lparr>db_guests = [guest_G1],
       db_rooms = [room_101\<lparr>r_status := cleaning, r_updated_at := e_db_now env_0\<rparr>],
       db_bookings = [booking_1\<lparr>b_status := checked_out,
                        b_actual_check_out := Some (e_now env_0),
                        b_updated_at := e_db_now env_0\<rparr>]\<rparr>)"
  by (simp add: handleCheckOut_def update_booking_checked_out_def update_room_status_def
        store_1_def env_0_def booking_1_def booking_of_def room_101_def)

lemma second_checkout:
  "handleCheckOut env_1 booking_1 (snd (handleCheckOut env_0 booking_1 store_1))
   = (CheckedOut,
      \<lparr>db_guests = [guest_G1],
       db_rooms = [room_101\<lparr>r_status := cleaning, r_updated_at := e_db_now env_0\<rparr>],
       db_bookings = [booking_1\<lparr>b_status := checked_out,
                        b_actual_check_out := Some (e_now env_0 + 3600000),
                        b_updated_at := e_db_now env_0\<rparr>]\<rparr>)"
  by (simp add: first_checkout)
     (simp add: handleCheckOut_def update_booking_checked_out_def update_room_status_def
        env_1_def env_0_def booking_1_def booking_of_def room_101_def)

lemma early_run:
  "handleSubmit_early env_0 [room_101] (form_early_of 19875 19877) store_0
     = (Created,
        \<lparr>db_guests = [guest_G1],
         db_rooms = [room_101\<lparr>r_status := occupied, r_updated_at := e_db_now env_0\<rparr>],
         db_bookings = [(booking_of 1 19875 ''00:00'' 19877 ''00:00'' 400)\<lparr>b_notes := Some []\<rparr>]\<rparr>)"
  using total_101 [of 19875]
  by (simp add: handleSubmit_early_def form_early_of_def insert_booking_def
        update_room_status_def new_booking_id_def Let_def)
     (simp add: hotel_defs)

lemma early_reversed:
  "handleSubmit_early env_0 [room_101] (form_early_of 19877 19875) store_0 = (InsertError, store_0)"
  by (simp add: handleSubmit_early_def form_early_of_def insert_booking_def Let_def
        date_ms_less split: option.splits)

subsection \<open>What a successful submit leaves alone\<close>

text \<open>
  C10, as the store has it. The room update fires the trigger that stamps
  \<open>updated_at\<close>: after the successful booking of room 101 its \<open>updated_at\<close> is the
  store's clock, no longer 0. So \<open>status\<close> is not the only field of the room that
  changes.
\<close>

theorem handleSubmit_stamps_room:
  "fst (handleSubmit env_0 [room_101] (form_of 19875 ''14:00'' 19877 ''12:00'' '''') store_0)
     = Created
   \<and> map r_updated_at (db_rooms store_0) = [0]
   \<and> map r_updated_at (db_rooms (snd (handleSubmit env_0 [room_101]
        (form_of 19875 ''14:00'' 19877 ''12:00'' '''') store_0))) = [1717236000000]"
  by (simp add: run_store_0) (simp add: store_0_def room_101_def env_0_def date_ms_def day_ms_def)

text \<open>
  C10, amended. A successful \<^verbatim>\<open>handleSubmit\<close> leaves the guests as they are, appends
  exactly one row to the bookings (the rows before it unchanged), and leaves every room
  other than the selected one as it is; of the selected room every field other than
  \<open>status\<close> and the store-maintained \<open>updated_at\<close> is unchanged.
\<close>

theorem handleSubmit_frame:
  assumes "fst (handleSubmit e rooms f db) = Created"
  shows "db_guests (snd (handleSubmit e rooms f db)) = db_guests db
    \<and> (\<exists>new. db_bookings (snd (handleSubmit e rooms f db)) = db_bookings db @ [new])
    \<and> list_all2 (\<lambda>r r'. (r_id r \<noteq> f_room_id f \<longrightarrow> r' = r)
                        \<and> r'\<lparr>r_status := r_status r, r_updated_at := r_updated_at r\<rparr> = r)
         (db_rooms db) (db_rooms (snd (handleSubmit e rooms f db)))"
proof (cases "bookingSchema_parse f")
  case (Inl i)
  with assms show ?thesis by (simp add: handleSubmit_Inl)
next
  case (Inr v)
  then have r: "v_room_id v = f_room_id f"
    by (simp add: bookingSchema_parse_Inr)
  let ?db1 = "db\<lparr>db_bookings := db_bookings db @ [created_row e rooms db v]\<rparr>"
  from assms have run: "handleSubmit e rooms f db =
      (Created, update_room_status e ?db1 (f_room_id f) occupied)"
    by (simp add: handleSubmit_Inr [OF Inr] r split: if_splits)
  from update_room_status_rel [of "f_room_id f" ?db1 e occupied]
  show ?thesis by (simp add: run)
qed

text \<open>The booking of room 101 in the empty hotel.\<close>

theorem handleSubmit_frame_witness:
  "fst (handleSubmit env_0 [room_101] (form_of 19875 ''14:00'' 19877 ''12:00'' '''') store_0)
     = Created
   \<and> db_guests (snd (handleSubmit env_0 [room_101] (form_of 19875 ''14:00'' 19877 ''12:00'' '''')
        store_0)) = [guest_G1]
   \<and> length (db_bookings (snd (handleSubmit env_0 [room_101]
        (form_of 19875 ''14:00'' 19877 ''12:00'' '''') store_0))) = 1
   \<and> map (\<lambda>r. r\<lparr>r_status := available, r_updated_at := 0\<rparr>)
        (db_rooms (snd (handleSubmit env_0 [room_101]
           (form_of 19875 ''14:00'' 19877 ''12:00'' '''') store_0))) = [room_101]"
proof -
  have h: "fst (handleSubmit env_0 [room_101] (form_of 19875 ''14:00'' 19877 ''12:00'' '''') store_0)
     = Created"
    by (simp add: run_store_0)
  from handleSubmit_frame [OF h] h
  show ?thesis by (simp add: run_store_0) (simp add: room_101_def)
qed

subsection \<open>Checking out twice\<close>

text \<open>
  C6, as the page has it. \<^verbatim>\<open>handleCheckOut\<close> does not read the status of the booking,
  and there is no error for a booking that is already checked out: called one hour
  later on the same row (as a list loaded before the first check-out still shows it),
  it succeeds again and replaces \<open>actual_check_out\<close> by the later time.
\<close>

theorem second_checkout_succeeds:
  "fst (handleCheckOut env_0 booking_1 store_1) = CheckedOut
   \<and> map b_actual_check_out (db_bookings (snd (handleCheckOut env_0 booking_1 store_1)))
       = [Some (e_now env_0)]
   \<and> fst (handleCheckOut env_1 booking_1 (snd (handleCheckOut env_0 booking_1 store_1)))
       = CheckedOut
   \<and> map b_actual_check_out
        (db_bookings (snd (handleCheckOut env_1 booking_1
           (snd (handleCheckOut env_0 booking_1 store_1)))))
       = [Some (e_now env_0 + 3600000)]
   \<and> e_now env_0 + 3600000 \<noteq> e_now env_0"
  by (simp add: second_checkout) (simp add: first_checkout)

text \<open>
  C6, amended. Every call of \<^verbatim>\<open>handleCheckOut\<close> that the user confirms and whose
  booking update the store carries out ends with the success toast, whatever the status
  of the booking was, and leaves the booking with status \<open>checked_out\<close> and
  \<open>actual_check_out\<close> the time of that call; the list then shows no check-out button on
  it. In a store where no active booking has an actual check-out, \<^verbatim>\<open>handleCheckOut\<close>
  and \<^verbatim>\<open>handleSubmit\<close> keep it so.
\<close>

theorem handleCheckOut_repeat:
  "(e_confirm e \<and> \<not> e_booking_update_error e \<longrightarrow>
      fst (handleCheckOut e booking db) = CheckedOut
      \<and> (\<forall>b\<in>set (db_bookings (snd (handleCheckOut e booking db))).
            b_id b = b_id booking \<longrightarrow>
              b_status b = checked_out \<and> b_actual_check_out b = Some (e_now e)
              \<and> \<not> checkOutButton b))
   \<and> ((\<forall>b\<in>set (db_bookings db). b_status b = active \<longrightarrow> b_actual_check_out b = None) \<longrightarrow>
        (\<forall>b\<in>set (db_bookings (snd (handleCheckOut e booking db))).
            b_status b = active \<longrightarrow> b_actual_check_out b = None)
        \<and> (\<forall>b\<in>set (db_bookings (snd (handleSubmit e rooms f db))).
            b_status b = active \<longrightarrow> b_actual_check_out b = None))"
proof -
  have 1: "fst (handleCheckOut e booking db) = CheckedOut
      \<and> (\<forall>b\<in>set (db_bookings (snd (handleCheckOut e booking db))).
            b_id b = b_id booking \<longrightarrow>
              b_status b = checked_out \<and> b_actual_check_out b = Some (e_now e)
              \<and> \<not> checkOutButton b)"
    if "e_confirm e" "\<not> e_booking_update_error e"
    by (auto simp: handleCheckOut_done [OF that] checkOutButton_def)
  from 1 handleCheckOut_inv [of db e booking] handleSubmit_inv [of db e rooms f]
  show ?thesis by blast
qed

text \<open>The second check-out of the booking of room 101, and a refused submit.\<close>

theorem handleCheckOut_repeat_witness:
  "e_confirm env_1 \<and> \<not> e_booking_update_error env_1
   \<and> map (\<lambda>b. (b_status b, b_actual_check_out b)) (db_bookings store_1) = [(active, None)]
   \<and> fst (handleCheckOut env_1 booking_1 (snd (handleCheckOut env_0 booking_1 store_1)))
       = CheckedOut
   \<and> map (\<lambda>b. (b_status b, b_actual_check_out b, checkOutButton b))
        (db_bookings (snd (handleCheckOut env_1 booking_1
           (snd (handleCheckOut env_0 booking_1 store_1)))))
       = [(checked_out, Some (e_now env_0 + 3600000), False)]
   \<and> map (\<lambda>b. (b_status b, b_actual_check_out b))
        (db_bookings (snd (handleSubmit env_0 [room_101]
           (form_of 19870 ''14:00'' 19872 ''12:00'' '''') store_1)))
       = [(active, None)]"
proof -
  have h: "e_confirm env_1" "\<not> e_booking_update_error env_1"
    by (simp_all add: env_1_def env_0_def)
  have i: "map (\<lambda>b. (b_status b, b_actual_check_out b)) (db_bookings store_1) = [(active, None)]"
    by (simp add: store_1_def booking_1_def booking_of_def)
  have s: "handleSubmit env_0 [room_101] (form_of 19870 ''14:00'' 19872 ''12:00'' '''') store_1
      = (CheckInPast, store_1)"
    by (simp add: handleSubmit_Inr [OF parse_form_of] valid_time_examples validated_of_def
          today_env_0 date_ms_less)
  from handleCheckOut_repeat [of env_1 booking_1 "snd (handleCheckOut env_0 booking_1 store_1)"
         "[room_101]" "form_of 19870 ''14:00'' 19872 ''12:00'' ''''"] h i
  show ?thesis
    by (simp add: second_checkout s) (simp add: checkOutButton_def)
qed

subsection \<open>The price of a persisted booking\<close>

text \<open>
  C9. When the rooms of the page's list with the selected id have a non-negative
  nightly price, a submit persists nothing or appends one booking whose total price is
  the value of \<^verbatim>\<open>calculateTotalPrice\<close> on the dates of the form (the form has no price
  field), as the store's column rounds it, and is not negative. This holds for
  \<^verbatim>\<open>handleSubmit\<close>, where the date validation orders the dates, and for the
  \<^verbatim>\<open>handleSubmit\<close> of the earlier revision, where the store's check on the dates
  refuses the rows with a negative price.
\<close>

theorem total_price_nonneg:
  assumes "\<forall>r\<in>set rooms. r_id r = roomId \<longrightarrow> 0 \<le> r_price_per_night r"
  shows "(f_room_id f = roomId \<longrightarrow>
            db_bookings (snd (handleSubmit e rooms f db)) = db_bookings db
            \<or> (\<exists>new. db_bookings (snd (handleSubmit e rooms f db)) = db_bookings db @ [new]
                  \<and> numeric_10_2 (json_number
                        (calculateTotalPrice rooms roomId (map_option date_ms (f_check_in_date f))
                           (map_option date_ms (f_check_out_date f))))
                      = Some (b_total_price new)
                  \<and> 0 \<le> b_total_price new))
       \<and> (f0_room_id f0 = roomId \<longrightarrow>
            db_bookings (snd (handleSubmit_early e rooms f0 db)) = db_bookings db
            \<or> (\<exists>new. db_bookings (snd (handleSubmit_early e rooms f0 db)) = db_bookings db @ [new]
                  \<and> numeric_10_2 (json_number
                        (calculateTotalPrice rooms roomId (map_option date_ms (f0_check_in_date f0))
                           (map_option date_ms (f0_check_out_date f0))))
                      = Some (b_total_price new)
                  \<and> 0 \<le> b_total_price new))"
proof (intro conjI impI)
  assume room: "f_room_id f = roomId"
  show "db_bookings (snd (handleSubmit e rooms f db)) = db_bookings db
            \<or> (\<exists>new. db_bookings (snd (handleSubmit e rooms f db)) = db_bookings db @ [new]
                  \<and> numeric_10_2 (json_number
                        (calculateTotalPrice rooms roomId (map_option date_ms (f_check_in_date f))
                           (map_option date_ms (f_check_out_date f))))
                      = Some (b_total_price new)
                  \<and> 0 \<le> b_total_price new)"
  proof (cases "fst (handleSubmit e rooms f db) = Created")
    case False
    from handleSubmit_no_write [OF this] show ?thesis by simp
  next
    case True
    then obtain v where v: "bookingSchema_parse f = Inr v"
      and run: "handleSubmit e rooms f db =
        (Created,
         update_room_status e (db\<lparr>db_bookings := db_bookings db @ [created_row e rooms db v]\<rparr>)
           (v_room_id v) occupied)"
      and lt: "v_check_in_date v < v_check_out_date v"
      and fits: "numeric_10_2 (json_number (calculateTotalPrice rooms (v_room_id v)
            (Some (date_ms (v_check_in_date v))) (Some (date_ms (v_check_out_date v)))))
          \<noteq> None"
      by (rule handleSubmit_Created_run)
    from v room have f: "v_room_id v = roomId" "f_check_in_date f = Some (v_check_in_date v)"
      "f_check_out_date f = Some (v_check_out_date v)"
      by (simp_all add: bookingSchema_parse_Inr)
    let ?price = "calculateTotalPrice rooms roomId (Some (date_ms (v_check_in_date v)))
                    (Some (date_ms (v_check_out_date v)))"
    from fits obtain t where t: "numeric_10_2 (json_number ?price) = Some t"
      by (auto simp: f)
    from lt have "date_ms (v_check_in_date v) \<le> date_ms (v_check_out_date v)"
      by (simp add: date_ms_le)
    from calculateTotalPrice_nonneg [OF assms this] have "0 \<le> json_number ?price"
      by (rule json_number_nonneg)
    from numeric_10_2_nonneg [OF this t] have "0 \<le> t" .
    with t
    have "db_bookings (snd (handleSubmit e rooms f db)) = db_bookings db @ [created_row e rooms db v]
        \<and> numeric_10_2 (json_number
              (calculateTotalPrice rooms roomId (map_option date_ms (f_check_in_date f))
                 (map_option date_ms (f_check_out_date f))))
            = Some (b_total_price (created_row e rooms db v))
        \<and> 0 \<le> b_total_price (created_row e rooms db v)"
      by (simp add: run created_row_def f)
    then show ?thesis by blast
  qed
next
  assume room: "f0_room_id f0 = roomId"
  let ?p = "\<lparr>i_guest_id = f0_guest_id f0, i_room_id = f0_room_id f0,
             i_check_in_date = map_option date_ms (f0_check_in_date f0),
             i_check_out_date = map_option date_ms (f0_check_out_date f0),
             i_notes = Some (f0_notes f0),
             i_total_price = calculateTotalPrice rooms (f0_room_id f0)
                         (map_option date_ms (f0_check_in_date f0))
                         (map_option date_ms (f0_check_out_date f0)),
             i_status = active\<rparr>"
  show "db_bookings (snd (handleSubmit_early e rooms f0 db)) = db_bookings db
            \<or> (\<exists>new. db_bookings (snd (handleSubmit_early e rooms f0 db)) = db_bookings db @ [new]
                  \<and> numeric_10_2 (json_number
                        (calculateTotalPrice rooms roomId (map_option date_ms (f0_check_in_date f0))
                           (map_option date_ms (f0_check_out_date f0))))
                      = Some (b_total_price new)
                  \<and> 0 \<le> b_total_price new)"
  proof (cases "insert_booking e db ?p")
    case None
    then show ?thesis by (simp add: handleSubmit_early_def Let_def)
  next
    case (Some db')
    then obtain ci co new where ci: "map_option date_ms (f0_check_in_date f0) = Some ci"
      and co: "map_option date_ms (f0_check_out_date f0) = Some co" and lt: "ci < co"
      and db': "db' = db\<lparr>db_bookings := db_bookings db @ [new]\<rparr>"
      and price: "numeric_10_2 (json_number (calculateTotalPrice rooms (f0_room_id f0)
                         (map_option date_ms (f0_check_in_date f0))
                         (map_option date_ms (f0_check_out_date f0))))
                  = Some (b_total_price new)"
      by (rule insert_booking_Some) simp_all
    from lt have "ci \<le> co" by simp
    from calculateTotalPrice_nonneg [OF assms this]
    have "0 \<le> json_number (calculateTotalPrice rooms roomId (Some ci) (Some co))"
      by (rule json_number_nonneg)
    from numeric_10_2_nonneg [OF this] price
    have "0 \<le> b_total_price new" by (simp add: ci co room)
    moreover have "db_bookings (snd (handleSubmit_early e rooms f0 db)) = db_bookings db @ [new]"
      by (simp add: handleSubmit_early_def Let_def Some db')
    ultimately show ?thesis using price room by blast
  qed
qed

text \<open>
  Room 101 at 200.00: both revisions persist a total of 400.00 for two nights; with
  the dates reversed the earlier revision computes -400.00 and the store refuses the row.
\<close>

theorem total_price_nonneg_witness:
  "0 \<le> r_price_per_night room_101
   \<and> f_room_id (form_of 19875 ''14:00'' 19877 ''12:00'' '''') = r_id room_101
   \<and> f0_room_id (form_early_of 19875 19877) = r_id room_101
   \<and> map b_total_price (db_bookings (snd (handleSubmit env_0 [room_101]
        (form_of 19875 ''14:00'' 19877 ''12:00'' '''') store_0))) = [400]
   \<and> map b_total_price (db_bookings (snd (handleSubmit_early env_0 [room_101]
        (form_early_of 19875 19877) store_0))) = [400]
   \<and> calculateTotalPrice [room_101] (r_id room_101) (Some (date_ms 19877)) (Some (date_ms 19875))
       = - 400
   \<and> db_bookings (snd (handleSubmit_early env_0 [room_101] (form_early_of 19877 19875) store_0))
       = db_bookings store_0"
proof -
  have h: "\<forall>r\<in>set [room_101]. r_id r = r_id room_101 \<longrightarrow> 0 \<le> r_price_per_night r"
    by (simp add: room_101_def)
  have p: "0 \<le> r_price_per_night room_101"
    by (simp add: room_101_def)
  have n: "calculateTotalPrice [room_101] (r_id room_101) (Some (date_ms 19877))
      (Some (date_ms 19875)) = - 400"
    using price_101 [of 19875 19877] by simp
  from total_price_nonneg [OF h, of "form_of 19875 ''14:00'' 19877 ''12:00'' ''''" env_0 store_0
         "form_early_of 19875 19877"]
       total_price_nonneg [OF h, of "form_of 19875 ''14:00'' 19877 ''12:00'' ''''" env_0 store_0
         "form_early_of 19877 19875"] p n
  show ?thesis
    by (simp add: run_store_0 early_run early_reversed)
       (simp add: form_of_def form_early_of_def booking_of_def)
qed

subsection \<open>Two overlapping active bookings\<close>

text \<open>
  C1 does not hold of the page. \<^verbatim>\<open>handleSubmit\<close> passes the two dates to the
  availability check and stores the dates with their times of day. From the hotel
  without bookings, the stay 2024-06-05 14:00 to 2024-06-07 12:00 is booked; then, from
  a page whose room list still shows room 101 as available, the stay 2024-06-03 14:00
  to 2024-06-05 23:00. The check compares the first stay's check-in, 06-05 14:00, with
  06-05 00:00 and finds the room free. Both bookings are active, on the same room, and
  overlap under the checker's test in either order: the first begins inside the second.
\<close>

theorem double_booking:
  "db_bookings store_0 = []
   \<and> room_101 \<in> set (availableRooms [room_101])
   \<and> handleSubmit env_0 [room_101] (form_of 19879 ''14:00'' 19881 ''12:00'' '''') store_0
       = (Created, store_1)
   \<and> handleSubmit env_0 [room_101] (form_of 19877 ''14:00'' 19879 ''23:00'' '''') store_1
       = (Created, store_2)
   \<and> db_bookings store_2 = [booking_1, booking_2]
   \<and> b_id booking_1 \<noteq> b_id booking_2
   \<and> b_room_id booking_1 = b_room_id booking_2
   \<and> b_status booking_1 = active \<and> b_status booking_2 = active
   \<and> overlap booking_1 booking_2 \<and> overlap booking_2 booking_1
   \<and> b_check_in_date booking_2 < b_check_in_date booking_1
   \<and> b_check_in_date booking_1 < b_check_out_date booking_2
   \<and> b_check_out_date booking_2 < b_check_out_date booking_1"
  by (simp add: run_first run_second)
     (simp add: store_0_def store_2_def availableRooms_def room_101_def overlap_def
        booking_1_def booking_2_def booking_of_def datetime_ms_def time_ms_def digit_val_def
        date_ms_def day_ms_def)

end
